theory Spec2Isabelle
  imports Complex_Main "HOL-Library.Word"
begin

section \<open>JavaScript values\<close>

text \<open>
  The values the handlers receive from JSON bodies, query strings and browser APIs.
  Numbers are the finite doubles that JSON and the Geolocation API deliver, read as
  reals; arrays and objects are only ever tested for truthiness or compared by
  reference with stored strings, so one constructor stands for all of them.
\<close>

datatype jsval = JUndefined | JNull | JBool bool | JNum real | JStr string | JObj

fun truthy :: "jsval \<Rightarrow> bool" where
  "truthy JUndefined = False"
| "truthy JNull = False"
| "truthy (JBool b) = b"
| "truthy (JNum r) = (r \<noteq> 0)"
| "truthy (JStr s) = (s \<noteq> [])"
| "truthy JObj = True"

fun typeof :: "jsval \<Rightarrow> string" where
  "typeof JUndefined = ''undefined''"
| "typeof JNull = ''object''"
| "typeof (JBool b) = ''boolean''"
| "typeof (JNum r) = ''number''"
| "typeof (JStr s) = ''string''"
| "typeof JObj = ''object''"

text \<open>
  The result of \<^verbatim>\<open>parseInt\<close> and of the arithmetic done on it: an integer or NaN.
  (Beyond \<open>2^53\<close> JavaScript rounds to the nearest double; the model keeps the exact
  integer, which changes no comparison made below.)
\<close>

datatype jsnum = NaN | Num int

section \<open>Login history page: risk badges (frontend/src/pages/admin/LoginHistory.jsx)\<close>

text \<open>
  \<^verbatim>\<open>function getRiskBadgeClass(riskScore) {
    if (riskScore >= 0.6) return "risk-badge critical";
    if (riskScore >= 0.3) return "risk-badge suspicious";
    return "risk-badge normal"; }\<close>
  The argument is \<^verbatim>\<open>session.risk_score\<close>, a JSON number.
\<close>

definition getRiskBadgeClass :: "real \<Rightarrow> string" where
  "getRiskBadgeClass riskScore =
     (if riskScore \<ge> 0.6 then ''risk-badge critical''
      else if riskScore \<ge> 0.3 then ''risk-badge suspicious''
      else ''risk-badge normal'')"

definition getStatusBadgeClass :: "string \<Rightarrow> string" where
  "getStatusBadgeClass status =
     (if status = ''critical'' then ''status-badge critical''
      else if status = ''suspicious'' then ''status-badge suspicious''
      else ''status-badge normal'')"

section \<open>Strings\<close>

text \<open>
  A string is a list of code units; the model reads \<^typ>\<open>char\<close> as a code unit below
  256. White space is what \<^verbatim>\<open>String.prototype.trim\<close> and \<^verbatim>\<open>parseInt\<close> skip in that range.
\<close>

definition is_ws :: "char \<Rightarrow> bool" where
  "is_ws c = ((of_char c :: nat) \<in> {9, 10, 11, 12, 13, 32, 160})"

definition js_trim :: "string \<Rightarrow> string" where
  "js_trim s = rev (dropWhile is_ws (rev (dropWhile is_ws s)))"

definition is_digit :: "char \<Rightarrow> bool" where
  "is_digit c = (48 \<le> (of_char c :: nat) \<and> (of_char c :: nat) \<le> 57)"

definition digit_val :: "char \<Rightarrow> int" where
  "digit_val c = int (of_char c) - 48"

fun parse_digits :: "string \<Rightarrow> int \<Rightarrow> int" where
  "parse_digits [] acc = acc"
| "parse_digits (c # cs) acc =
     (if is_digit c then parse_digits cs (acc * 10 + digit_val c) else acc)"

text \<open>
  \<^verbatim>\<open>parseInt(s, 10)\<close>: leading white space is skipped, one sign is read, then the
  longest run of decimal digits; with no digit there the result is NaN.
\<close>

definition parseInt10 :: "string \<Rightarrow> jsnum" where
  "parseInt10 s =
     (let t = dropWhile is_ws s;
          neg = (case t of [] \<Rightarrow> False | c # _ \<Rightarrow> c = CHR ''-'');
          u = (case t of [] \<Rightarrow> [] | c # cs \<Rightarrow> if c = CHR ''-'' \<or> c = CHR ''+'' then cs else t)
      in case u of
           [] \<Rightarrow> NaN
         | d # _ \<Rightarrow>
             if is_digit d then Num (if neg then - parse_digits u 0 else parse_digits u 0)
             else NaN)"

definition lower_char :: "char \<Rightarrow> char" where
  "lower_char c =
     (let n = (of_char c :: nat)
      in if (65 \<le> n \<and> n \<le> 90) \<or> (192 \<le> n \<and> n \<le> 222 \<and> n \<noteq> 215)
         then char_of (n + 32) else c)"

definition toLowerCase :: "string \<Rightarrow> string" where
  "toLowerCase s = map lower_char s"

fun starts_with :: "string \<Rightarrow> string \<Rightarrow> bool" where
  "starts_with s [] = True"
| "starts_with [] (p # ps) = False"
| "starts_with (c # cs) (p # ps) = (c = p \<and> starts_with cs ps)"

fun str_includes :: "string \<Rightarrow> string \<Rightarrow> bool" where
  "str_includes [] sub = (sub = [])"
| "str_includes (c # cs) sub = (starts_with (c # cs) sub \<or> str_includes cs sub)"

text \<open>\<^verbatim>\<open>s.split(" ")\<close>: the pieces between single spaces, empty pieces kept.\<close>

fun split_space :: "string \<Rightarrow> string list" where
  "split_space [] = [[]]"
| "split_space (c # cs) =
     (if c = CHR '' '' then [] # split_space cs
      else (case split_space cs of [] \<Rightarrow> [[c]] | w # ws \<Rightarrow> (c # w) # ws))"

text \<open>\<^verbatim>\<open>x || d\<close> for an optional string: a missing or empty one gives the default.\<close>

definition or_default :: "string option \<Rightarrow> string \<Rightarrow> string" where
  "or_default x d = (case x of None \<Rightarrow> d | Some s \<Rightarrow> if s = [] then d else s)"

section \<open>Numbers with NaN, and Array.prototype.slice\<close>

fun Math_max :: "int \<Rightarrow> jsnum \<Rightarrow> jsnum" where
  "Math_max a NaN = NaN"
| "Math_max a (Num n) = Num (max a n)"

fun Math_min :: "int \<Rightarrow> jsnum \<Rightarrow> jsnum" where
  "Math_min a NaN = NaN"
| "Math_min a (Num n) = Num (min a n)"

fun js_arith :: "(int \<Rightarrow> int \<Rightarrow> int) \<Rightarrow> jsnum \<Rightarrow> jsnum \<Rightarrow> jsnum" where
  "js_arith f (Num a) (Num b) = Num (f a b)"
| "js_arith f _ _ = NaN"

text \<open>
  The relative index of \<^verbatim>\<open>slice\<close>: NaN counts as 0, a negative index counts from the
  end, and the result is clamped into \<open>0..len\<close>.
\<close>

fun rel_index :: "nat \<Rightarrow> jsnum \<Rightarrow> nat" where
  "rel_index len NaN = 0"
| "rel_index len (Num k) = (if k < 0 then nat (max (int len + k) 0) else min (nat k) len)"

definition js_slice :: "'a list \<Rightarrow> jsnum \<Rightarrow> jsnum \<Rightarrow> 'a list" where
  "js_slice xs start fin =
     (let k = rel_index (length xs) start; final = rel_index (length xs) fin
      in take (final - k) (drop k xs))"

section \<open>Mock server: data (frontend/server/data.js)\<close>

record user =
  user_id :: string
  username :: string
  role :: string
  created_at :: string

record log_entry =
  log_id :: string
  userId :: string
  action :: string
  ip :: string
  timestamp :: string

record server =
  users :: "user list"
  logs :: "log_entry list"

text \<open>
  The in-memory store at start-up. Each record's time (its own call of
  \<^verbatim>\<open>new Date().toISOString()\<close>) and each log id (\<^verbatim>\<open>uuidv4()\<close>) is taken as an argument.
\<close>

definition data_users :: "string \<Rightarrow> string \<Rightarrow> string \<Rightarrow> user list" where
  "data_users t1 t2 t3 =
     [\<lparr>user_id = ''1'', username = ''alice'', role = ''admin'', created_at = t1\<rparr>,
      \<lparr>user_id = ''2'', username = ''bob'', role = ''user'', created_at = t2\<rparr>,
      \<lparr>user_id = ''3'', username = ''carol'', role = ''user'', created_at = t3\<rparr>]"

definition data_logs ::
  "string \<Rightarrow> string \<Rightarrow> string \<Rightarrow> string \<Rightarrow> string \<Rightarrow> string \<Rightarrow> log_entry list" where
  "data_logs t4 t5 t6 i1 i2 i3 =
     [\<lparr>log_id = i1, userId = ''2'', action = ''login'', ip = ''10.0.0.1'', timestamp = t4\<rparr>,
      \<lparr>log_id = i2, userId = ''3'', action = ''file_open_confidential'', ip = ''10.0.0.2'',
        timestamp = t5\<rparr>,
      \<lparr>log_id = i3, userId = ''2'', action = ''usb_detect'', ip = ''10.0.0.1'', timestamp = t6\<rparr>]"

definition data_server ::
  "string \<Rightarrow> string \<Rightarrow> string \<Rightarrow> string \<Rightarrow> string \<Rightarrow> string
   \<Rightarrow> string \<Rightarrow> string \<Rightarrow> string \<Rightarrow> server" where
  "data_server t1 t2 t3 t4 t5 t6 i1 i2 i3 =
     \<lparr>users = data_users t1 t2 t3, logs = data_logs t4 t5 t6 i1 i2 i3\<rparr>"

section \<open>Mock server: tokens and middleware (the server beside data.js, unnamed/part_005)\<close>

text \<open>
  The \<^verbatim>\<open>jsonwebtoken\<close> library and the process environment are not part of the
  repository: signing and verifying are fields of the runtime, each taking the clock,
  since a token carries its issue time and expires.
\<close>

type_synonym payload = "(string \<times> string) list"

record runtime =
  jwt_sign :: "nat \<Rightarrow> payload \<Rightarrow> string \<Rightarrow> string \<Rightarrow> string"
  jwt_verify :: "nat \<Rightarrow> string \<Rightarrow> string \<Rightarrow> payload option"
  env_JWT_SECRET :: "string option"

definition JWT_SECRET :: "runtime \<Rightarrow> string" where
  "JWT_SECRET rt = or_default (env_JWT_SECRET rt) ''dev-secret-change-this''"

definition ACCESS_TTL :: nat where
  "ACCESS_TTL = 60 * 15"

text \<open>The default \<^verbatim>\<open>expiresIn\<close> of \<^verbatim>\<open>signToken\<close> is the text of \<open>ACCESS_TTL\<close> followed by s.\<close>

definition default_expiresIn :: string where
  "default_expiresIn = ''900s''"

definition signToken :: "runtime \<Rightarrow> nat \<Rightarrow> payload \<Rightarrow> string \<Rightarrow> string" where
  "signToken rt now p expiresIn = jwt_sign rt now p (JWT_SECRET rt) expiresIn"

datatype body =
    Detail string
  | Tokens string string string string
  | SuccessTrue
  | UserPage nat jsnum jsnum "user list"
  | LogPage nat jsnum jsnum "log_entry list"

type_synonym response = "nat \<times> body"

definition authenticateToken :: "runtime \<Rightarrow> nat \<Rightarrow> string option \<Rightarrow> response + payload" where
  "authenticateToken rt now authorization =
     (case authorization of
        None \<Rightarrow> Inl (401, Detail ''Missing Authorization header'')
      | Some auth \<Rightarrow>
          if auth = [] then Inl (401, Detail ''Missing Authorization header'')
          else (case split_space auth of
                  [scheme, tok] \<Rightarrow>
                    if scheme \<noteq> ''Bearer'' then Inl (401, Detail ''Invalid Authorization format'')
                    else (case jwt_verify rt now tok (JWT_SECRET rt) of
                            None \<Rightarrow> Inl (401, Detail ''Invalid or expired token'')
                          | Some p \<Rightarrow> Inr p)
                | _ \<Rightarrow> Inl (401, Detail ''Invalid Authorization format'')))"

definition requireAdmin :: "payload option \<Rightarrow> response option" where
  "requireAdmin req_user =
     (case req_user of
        None \<Rightarrow> Some (401, Detail ''Not authenticated'')
      | Some p \<Rightarrow>
          if map_of p ''role'' \<noteq> Some ''admin'' then Some (403, Detail ''Admin role required'')
          else None)"

section \<open>Mock server: routes (unnamed/part_005)\<close>

text \<open>
  A handler takes the store and returns the response with the store it leaves. The JSON
  body is a function from field names to values, \<open>JUndefined\<close> for a missing field.
\<close>

definition post_login :: "runtime \<Rightarrow> nat \<Rightarrow> server \<Rightarrow> (string \<Rightarrow> jsval) \<Rightarrow> response \<times> server" where
  "post_login rt now s req_body =
     (let uname = req_body ''username''
      in if \<not> truthy uname then ((400, Detail ''username required''), s)
         else (case find (\<lambda>u. JStr (username u) = uname) (users s) of
                 None \<Rightarrow> ((401, Detail ''Invalid credentials''), s)
               | Some u \<Rightarrow>
                   (let access_token =
                          signToken rt now
                            [(''id'', user_id u), (''username'', username u), (''role'', role u)]
                            default_expiresIn;
                        refresh_token = signToken rt now [(''id'', user_id u)] ''7d''
                    in ((200, Tokens access_token refresh_token (role u) (username u)), s))))"

definition post_logout :: "runtime \<Rightarrow> nat \<Rightarrow> server \<Rightarrow> string option \<Rightarrow> response \<times> server" where
  "post_logout rt now s authorization =
     (case authenticateToken rt now authorization of
        Inl r \<Rightarrow> (r, s)
      | Inr p \<Rightarrow> ((200, SuccessTrue), s))"

type_synonym query = "string \<Rightarrow> string option"

definition admin_users_handler :: "server \<Rightarrow> query \<Rightarrow> response" where
  "admin_users_handler s q =
     (let page = Math_max 1 (parseInt10 (or_default (q ''page'') ''1''));
          limit = Math_min 100 (Math_max 1 (parseInt10 (or_default (q ''limit'') ''25'')));
          search = toLowerCase (or_default (q ''search'') []);
          roleFilter = or_default (q ''role'') [];
          results = users s;
          results1 = (if search \<noteq> []
                      then filter (\<lambda>u. str_includes (toLowerCase (username u)) search) results
                      else results);
          results2 = (if roleFilter \<noteq> [] then filter (\<lambda>u. role u = roleFilter) results1
                      else results1);
          total = length results2;
          start = js_arith times (js_arith minus page (Num 1)) limit;
          items = js_slice results2 start (js_arith plus start limit)
      in (200, UserPage total page limit items))"

definition logs_handler :: "server \<Rightarrow> query \<Rightarrow> response" where
  "logs_handler s q =
     (let page = Math_max 1 (parseInt10 (or_default (q ''page'') ''1''));
          limit = Math_min 100 (Math_max 1 (parseInt10 (or_default (q ''limit'') ''25'')));
          act = or_default (q ''action'') [];
          uid = or_default (q ''user_id'') [];
          results = logs s;
          results1 = (if act \<noteq> [] then filter (\<lambda>l. action l = act) results else results);
          results2 = (if uid \<noteq> [] then filter (\<lambda>l. userId l = uid) results1 else results1);
          total = length results2;
          start = js_arith times (js_arith minus page (Num 1)) limit;
          items = js_slice results2 start (js_arith plus start limit)
      in (200, LogPage total page limit items))"

text \<open>The route: \<^verbatim>\<open>authenticateToken\<close>, then \<^verbatim>\<open>requireAdmin\<close>, then the handler.\<close>

definition admin_route ::
  "(server \<Rightarrow> query \<Rightarrow> response) \<Rightarrow> runtime \<Rightarrow> nat \<Rightarrow> server \<Rightarrow> string option \<Rightarrow> query \<Rightarrow> response" where
  "admin_route handler rt now s authorization q =
     (case authenticateToken rt now authorization of
        Inl r \<Rightarrow> r
      | Inr p \<Rightarrow> (case requireAdmin (Some p) of Some r \<Rightarrow> r | None \<Rightarrow> handler s q))"

definition get_admin_users :: "runtime \<Rightarrow> nat \<Rightarrow> server \<Rightarrow> string option \<Rightarrow> query \<Rightarrow> response" where
  "get_admin_users = admin_route admin_users_handler"

definition get_logs :: "runtime \<Rightarrow> nat \<Rightarrow> server \<Rightarrow> string option \<Rightarrow> query \<Rightarrow> response" where
  "get_logs = admin_route logs_handler"

section \<open>Device fingerprint (frontend/src/utils/deviceFingerprint.js)\<close>

text \<open>
  The properties \<^verbatim>\<open>generateDeviceUUID\<close> reads from \<^verbatim>\<open>navigator\<close>, \<^verbatim>\<open>screen\<close> and \<^verbatim>\<open>Intl\<close>.
\<close>

record fingerprint =
  userAgent :: string
  language :: string
  platform :: string
  screen_width :: int
  screen_height :: int
  timezone :: string

type_synonym byte = "8 word"

text \<open>
  The browser's built-ins: \<open>subtle_digest\<close> is \<^verbatim>\<open>crypto.subtle.digest('SHA-256', _)\<close>,
  whose result buffer holds 256 bits, and is \<open>None\<close> where Web Crypto is unavailable;
  \<open>json_utf8\<close> is \<^verbatim>\<open>JSON.stringify\<close> followed by \<^verbatim>\<open>TextEncoder.encode\<close>.
\<close>

record browser =
  subtle_digest :: "(byte list \<Rightarrow> 256 word) option"
  json_utf8 :: "fingerprint \<Rightarrow> byte list"

text \<open>\<^verbatim>\<open>Array.from(new Uint8Array(hashBuffer))\<close>: the 32 bytes, first byte first.\<close>

definition hash_bytes :: "256 word \<Rightarrow> byte list" where
  "hash_bytes h = map (\<lambda>i. ucast (drop_bit (8 * (31 - i)) h)) [0..<32]"

definition hex_digits :: string where
  "hex_digits = ''0123456789abcdef''"

text \<open>\<^verbatim>\<open>n.toString(16)\<close> for a non-negative integer.\<close>

fun toString16 :: "nat \<Rightarrow> string" where
  "toString16 n =
     (if n < 16 then [hex_digits ! n] else toString16 (n div 16) @ [hex_digits ! (n mod 16)])"

text \<open>\<^verbatim>\<open>s.padStart(targetLength, c)\<close> with a pad string of one character.\<close>

definition padStart :: "nat \<Rightarrow> char \<Rightarrow> string \<Rightarrow> string" where
  "padStart targetLength c s = replicate (targetLength - length s) c @ s"

definition byte_hex :: "byte \<Rightarrow> string" where
  "byte_hex b = padStart 2 (CHR ''0'') (toString16 (unat b))"

text \<open>The result is the thrown error's message (\<open>Inl\<close>) or the UUID (\<open>Inr\<close>).\<close>

definition generateDeviceUUID :: "browser \<Rightarrow> fingerprint \<Rightarrow> string + string" where
  "generateDeviceUUID br fp =
     (case subtle_digest br of
        None \<Rightarrow>
          Inl ''Web Crypto API not available. Device fingerprinting requires HTTPS and modern browser.''
      | Some digest \<Rightarrow> Inr (concat (map byte_hex (hash_bytes (digest (json_utf8 br fp))))))"

type_synonym storage = "string \<rightharpoonup> string"

definition STORAGE_KEY :: string where
  "STORAGE_KEY = ''device_uuid''"

text \<open>
  \<^verbatim>\<open>localStorage\<close> is passed in and returned. \<^verbatim>\<open>setItem\<close> may throw (quota, private
  mode): \<open>writable\<close> says whether it succeeds; the source catches the failure and goes on.
\<close>

definition getOrCreateDeviceUUID ::
  "browser \<Rightarrow> fingerprint \<Rightarrow> bool \<Rightarrow> storage \<Rightarrow> (string + string) \<times> storage" where
  "getOrCreateDeviceUUID br fp writable st =
     (let existingUUID = st STORAGE_KEY;
          reuse = (case existingUUID of None \<Rightarrow> False | Some e \<Rightarrow> e \<noteq> [] \<and> length e = 64);
          st1 = (case existingUUID of
                   None \<Rightarrow> st
                 | Some e \<Rightarrow> if e \<noteq> [] \<and> length e \<noteq> 64 then st(STORAGE_KEY := None) else st)
      in if reuse then (Inr (the existingUUID), st)
         else (case generateDeviceUUID br fp of
                 Inl err \<Rightarrow> (Inl err, st1)
               | Inr newUUID \<Rightarrow>
                   (Inr newUUID, if writable then st1(STORAGE_KEY \<mapsto> newUUID) else st1)))"

section \<open>API client: logout (frontend/src/api/api.js)\<close>

text \<open>
  \<^verbatim>\<open>logoutUser\<close> sends the stored access token (the text "null" when there is none) to
  \<^verbatim>\<open>POST /logout\<close>, clears \<^verbatim>\<open>localStorage\<close> and returns \<^verbatim>\<open>res.ok\<close>. The server is the
  argument \<open>backend\<close>, from the Authorization header and its state.
\<close>

definition logoutUser ::
  "(string option \<Rightarrow> 'srv \<Rightarrow> response \<times> 'srv) \<Rightarrow> storage \<Rightarrow> 'srv \<Rightarrow> bool \<times> storage \<times> 'srv" where
  "logoutUser backend localStorage srv =
     (let token = localStorage ''access_token'';
          authorization = ''Bearer '' @ (case token of None \<Rightarrow> ''null'' | Some t \<Rightarrow> t)
      in case backend (Some authorization) srv of
           ((status, b), srv') \<Rightarrow> (200 \<le> status \<and> status \<le> 299, Map.empty, srv'))"

section \<open>Browser location (utils/locationCapture, unnamed/part_001; frontend/src/api/api.js)\<close>

record browser_location =
  permission_status :: string
  latitude :: jsval
  longitude :: jsval
  accuracy_m :: jsval

text \<open>
  What the browser offers to \<^verbatim>\<open>captureBrowserLocation\<close>: whether \<^verbatim>\<open>navigator.geolocation\<close>
  exists, the state the Permissions API reports (\<open>None\<close> when the API is missing or its
  query throws), and how \<^verbatim>\<open>getCurrentPosition\<close> ends: with coordinates, or with an
  error and its code.
\<close>

datatype position_result = Position real real real | PositionError nat

record navigator =
  has_geolocation :: bool
  permission_state :: "string option"
  current_position :: position_result

definition no_location :: "string \<Rightarrow> browser_location" where
  "no_location st =
     \<lparr>permission_status = st, latitude = JNull, longitude = JNull, accuracy_m = JNull\<rparr>"

definition captureBrowserLocation :: "navigator \<Rightarrow> browser_location" where
  "captureBrowserLocation nav =
     (if \<not> has_geolocation nav then no_location ''not_supported''
      else if permission_state nav = Some ''denied'' then no_location ''denied''
      else (case current_position nav of
              Position lat lon acc \<Rightarrow>
                \<lparr>permission_status = ''granted'', latitude = JNum lat, longitude = JNum lon,
                 accuracy_m = JNum acc\<rparr>
            | PositionError code \<Rightarrow>
                if code = 1 then no_location ''denied''
                else if code = 2 then no_location ''unavailable''
                else if code = 3 then no_location ''timeout''
                else no_location ''error''))"

text \<open>
  The request headers \<^verbatim>\<open>loginUser\<close> builds from \<^verbatim>\<open>data?.browser_location\<close>; \<open>to_text\<close> is
  JavaScript's \<^verbatim>\<open>String(_)\<close> on a number.
\<close>

definition loginUser_headers ::
  "(jsval \<Rightarrow> string) \<Rightarrow> browser_location option \<Rightarrow> (string \<times> string) list" where
  "loginUser_headers to_text browserLocation =
     [(''Content-Type'', ''application/json'')] @
     (case browserLocation of
        None \<Rightarrow> []
      | Some l \<Rightarrow>
          if permission_status l = ''granted''
          then (if typeof (latitude l) = ''number'' \<and> typeof (longitude l) = ''number''
                then [(''X-User-Latitude'', to_text (latitude l)),
                      (''X-User-Longitude'', to_text (longitude l))]
                else [])
          else [])"

section \<open>User management page: lock and unlock (component UserManagement, unnamed/part_002)\<close>

text \<open>
  The component state \<^verbatim>\<open>handleLockUnlock\<close> reads and sets. \<open>currentUser_role\<close> is
  \<^verbatim>\<open>currentUser?.role\<close>, \<open>selectedUser\<close> the id of the selected user; \<open>list_refreshed\<close>
  records that the fetch of \<^verbatim>\<open>searchUsers()\<close> was started.
\<close>

record lock_modal =
  searchTerm :: string
  currentUser_role :: "string option"
  selectedUser :: "nat option"
  modalAction :: string
  reason_text :: string
  message :: "string \<times> string"
  loading :: bool
  showModal :: bool
  list_refreshed :: bool

text \<open>
  How the \<^verbatim>\<open>fetch\<close> of the handler ends: it throws, the response is not ok (with the
  \<^verbatim>\<open>detail\<close> of its body), or it is ok with \<^verbatim>\<open>result.success\<close> and \<^verbatim>\<open>result.action\<close>.
\<close>

datatype fetch_result = FetchThrows string | NotOk "string option" | Ok200 bool string

definition closeModal :: "lock_modal \<Rightarrow> lock_modal" where
  "closeModal ui = ui\<lparr>showModal := False, selectedUser := None, modalAction := [], reason_text := []\<rparr>"

text \<open>
  What \<^verbatim>\<open>searchUsers()\<close> does before its own fetch: with an empty search term it shows
  an error and returns; otherwise it sets loading, clears the message and goes on to
  fetch the list (the fetch and what follows it are not part of this model).
\<close>

definition searchUsers_start :: "lock_modal \<Rightarrow> lock_modal" where
  "searchUsers_start ui =
     (if js_trim (searchTerm ui) = []
      then ui\<lparr>message := (''Please enter a search term'', ''error'')\<rparr>
      else ui\<lparr>loading := True, message := ([], []), list_refreshed := True\<rparr>)"

text \<open>
  The handler, with the backend behind \<^verbatim>\<open>POST /admin/users/:id/lock-unlock\<close> as the
  argument \<open>backend\<close>: it takes the user id, the action, the reason sent
  (\<^verbatim>\<open>reason.trim() || null\<close>) and its own state.
\<close>

definition handleLockUnlock ::
  "(nat \<Rightarrow> string \<Rightarrow> string option \<Rightarrow> 'srv \<Rightarrow> fetch_result \<times> 'srv)
   \<Rightarrow> lock_modal \<Rightarrow> 'srv \<Rightarrow> lock_modal \<times> 'srv" where
  "handleLockUnlock backend ui srv =
     (case selectedUser ui of
        None \<Rightarrow> (ui, srv)
      | Some uid \<Rightarrow>
          if modalAction ui = [] then (ui, srv)
          else if currentUser_role ui = Some ''admin'' \<and> js_trim (reason_text ui) = []
          then (ui\<lparr>message := (''Please provide a reason for this action'', ''error'')\<rparr>, srv)
          else
            (let ui1 = ui\<lparr>loading := True, message := ([], [])\<rparr>;
                 sent = (if js_trim (reason_text ui) = [] then None
                         else Some (js_trim (reason_text ui)))
             in case backend uid (modalAction ui) sent srv of
                  (FetchThrows m, srv') \<Rightarrow>
                    (ui1\<lparr>message := (if m = [] then ''Failed to process request'' else m, ''error''),
                         loading := False\<rparr>, srv')
                | (NotOk detail, srv') \<Rightarrow>
                    (ui1\<lparr>message := (or_default detail ''Failed to process request'', ''error''),
                         loading := False\<rparr>, srv')
                | (Ok200 success act, srv') \<Rightarrow>
                    (let ui2 =
                       (if success \<and> act = ''executed''
                        then searchUsers_start
                               (ui1\<lparr>message :=
                                      (''User '' @ modalAction ui @ ''ed successfully'', ''success'')\<rparr>)
                        else if success \<and> act = ''request_created''
                        then ui1\<lparr>message := (''Request sent to superadmin for approval'', ''info'')\<rparr>
                        else ui1)
                     in ((closeModal ui2)\<lparr>loading := False\<rparr>, srv'))))"

section \<open>Pending requests page: review (frontend/src/pages/admin/PendingRequests.jsx)\<close>

text \<open>
  The component state \<^verbatim>\<open>handleReview\<close> reads and sets; its \<^verbatim>\<open>modalAction\<close>,
  \<^verbatim>\<open>message\<close>, \<^verbatim>\<open>loading\<close> and \<^verbatim>\<open>showModal\<close> carry a prefix here, since the user
  management page has fields of the same names. \<open>selectedRequest\<close> is the id of the
  selected request; \<open>requests_refreshed\<close> records that the fetch of
  \<^verbatim>\<open>fetchPendingRequests()\<close> was started. A fetch ends as on the user management page; an ok response carries
  \<^verbatim>\<open>result.success\<close> and \<^verbatim>\<open>result.executed\<close>.
\<close>

record review_modal =
  selectedRequest :: "nat option"
  rv_modalAction :: string
  comment_text :: string
  rv_message :: "string \<times> string"
  rv_loading :: bool
  rv_showModal :: bool
  requests_refreshed :: bool

datatype review_result = ReviewThrows string | ReviewNotOk "string option" | ReviewOk bool bool

definition rv_closeModal :: "review_modal \<Rightarrow> review_modal" where
  "rv_closeModal ui =
     ui\<lparr>rv_showModal := False, selectedRequest := None, rv_modalAction := [], comment_text := []\<rparr>"

text \<open>
  What \<^verbatim>\<open>fetchPendingRequests()\<close> does before its own fetch: it sets loading and clears
  the message (the fetch and what follows it are not part of this model).
\<close>

definition fetchPendingRequests_start :: "review_modal \<Rightarrow> review_modal" where
  "fetchPendingRequests_start ui =
     ui\<lparr>rv_loading := True, rv_message := ([], []), requests_refreshed := True\<rparr>"

definition handleReview ::
  "(nat \<Rightarrow> string \<Rightarrow> string option \<Rightarrow> 'srv \<Rightarrow> review_result \<times> 'srv)
   \<Rightarrow> review_modal \<Rightarrow> 'srv \<Rightarrow> review_modal \<times> 'srv" where
  "handleReview backend ui srv =
     (case selectedRequest ui of
        None \<Rightarrow> (ui, srv)
      | Some rid \<Rightarrow>
          if rv_modalAction ui = [] then (ui, srv)
          else
            (let ui1 = ui\<lparr>rv_loading := True, rv_message := ([], [])\<rparr>;
                 sent = (if js_trim (comment_text ui) = [] then None
                         else Some (js_trim (comment_text ui)))
             in case backend rid (rv_modalAction ui) sent srv of
                  (ReviewThrows m, srv') \<Rightarrow>
                    (ui1\<lparr>rv_message := (if m = [] then ''Failed to review request'' else m, ''error''),
                         rv_loading := False\<rparr>, srv')
                | (ReviewNotOk detail, srv') \<Rightarrow>
                    (ui1\<lparr>rv_message := (or_default detail ''Failed to review request'', ''error''),
                         rv_loading := False\<rparr>, srv')
                | (ReviewOk success executed, srv') \<Rightarrow>
                    (let ui2 =
                       (if success
                        then fetchPendingRequests_start
                               (ui1\<lparr>rv_message :=
                                      (''Request '' @ rv_modalAction ui @ ''ed successfully'' @
                                         (if executed then '' and action executed'' else []),
                                       ''success'')\<rparr>)
                        else ui1)
                     in ((rv_closeModal ui2)\<lparr>rv_loading := False\<rparr>, srv'))))"

section \<open>The core behind the endpoints\<close>

text \<open>
  The backend that serves the agent, the lock workflow and the geolocation is not
  among the repository's files; the definitions of this section follow the
  specification's sections 3, 4.1, 4.2, 4.3, 4.5 and 7.
\<close>

text \<open>
  Modelled from the spec: the error kinds of section 7 that the handlers below return,
  with the names sections 4.3 and 4.5 give (DuplicateRequest and DeviceRevoked are the
  Conflict kinds, NotRegistered the NotFound of an unknown device); AlreadyResolved is
  the Conflict of reviewing a request that is no longer pending.
\<close>

datatype error_kind =
    ValidationError | Unauthorized | Forbidden | DuplicateRequest | AlreadyResolved
  | DeviceRevoked | NotFound | NotRegistered

subsection \<open>Device Trust Registry\<close>

text \<open>
  Modelled from the spec: the Device of section 3 and its states of section 4.3; the
  registry is keyed by device_uuid.
\<close>

datatype device_status = DevPending | DevActive | DevInactive | DevRevoked

record device =
  device_uuid :: string
  secret_token :: string
  owner_account_id :: nat
  dev_status :: device_status
  last_heartbeat_at :: "nat option"
  trust_level :: int

type_synonym registry = "string \<rightharpoonup> device"

text \<open>
  Modelled from the spec: the agent heartbeat handler, which is missing from the
  sources. Section 4.3: heartbeat(device_uuid, secret_token, telemetry) requires a
  matching non-revoked device and the correct token, updates last_heartbeat_at and
  turns an inactive device active; it fails with NotRegistered if the device is unknown
  and with Unauthorized on a token mismatch. The error for a revoked device that
  presents its token is not named there; the model uses DeviceRevoked.
\<close>

definition heartbeat ::
  "nat \<Rightarrow> string \<Rightarrow> string \<Rightarrow> 't \<Rightarrow> registry \<Rightarrow> (error_kind + unit) \<times> registry" where
  "heartbeat now uuid tok telemetry reg =
     (case reg uuid of
        None \<Rightarrow> (Inl NotRegistered, reg)
      | Some d \<Rightarrow>
          if tok \<noteq> secret_token d then (Inl Unauthorized, reg)
          else if dev_status d = DevRevoked then (Inl DeviceRevoked, reg)
          else (Inr (),
                reg(uuid \<mapsto> d\<lparr>last_heartbeat_at := Some now,
                                dev_status := (if dev_status d = DevInactive then DevActive
                                               else dev_status d)\<rparr>)))"

subsection \<open>Accounts, sessions and lock requests\<close>

text \<open>
  Modelled from the spec: the data model of section 3. An Account is found by its id;
  a LoginSession keeps the fields the lock workflow and logout touch; a LockRequest has
  all its fields, \<open>lr_action\<close>, \<open>lr_reason\<close>, \<open>lr_state\<close>, \<open>lr_comment\<close> and
  \<open>lr_created_at\<close> being action, reason, state, comment and created_at.
\<close>

datatype account_role = User | Admin | Superadmin

datatype lock_action = Lock | Unlock

datatype request_state = Pending | Approved | Rejected | Executed

datatype review_action = Approve | Reject

record account =
  credential_hash :: string
  acct_role :: account_role
  locked :: bool
  failed_login_attempts :: nat
  last_login_country :: "string option"

record login_session =
  session_id :: nat
  account_id :: nat
  login_at :: nat
  logout_at :: "nat option"
  is_active :: bool

record lock_request =
  request_id :: nat
  target_account_id :: nat
  lr_action :: lock_action
  requested_by_account_id :: nat
  requested_by_role :: account_role
  lr_reason :: "string option"
  lr_state :: request_state
  reviewed_by_account_id :: "nat option"
  lr_comment :: "string option"
  lr_created_at :: nat
  resolved_at :: "nat option"

record core =
  accounts :: "nat \<rightharpoonup> account"
  sessions :: "login_session list"
  lock_requests :: "lock_request list"

text \<open>
  Modelled from the spec: the effect of an executed action, missing from the sources.
  Section 4.5: a lock sets locked and invalidates all of the account's active sessions;
  an unlock clears locked and resets failed_login_attempts to 0.
\<close>

definition execute_action :: "lock_action \<Rightarrow> nat \<Rightarrow> core \<Rightarrow> core" where
  "execute_action act target c =
     (case accounts c target of
        None \<Rightarrow> c
      | Some a \<Rightarrow>
          (case act of
             Lock \<Rightarrow>
               c\<lparr>accounts := (accounts c)(target \<mapsto> a\<lparr>locked := True\<rparr>),
                 sessions := map (\<lambda>s. if account_id s = target then s\<lparr>is_active := False\<rparr> else s)
                               (sessions c)\<rparr>
           | Unlock \<Rightarrow>
               c\<lparr>accounts := (accounts c)(target \<mapsto> a\<lparr>locked := False, failed_login_attempts := 0\<rparr>)\<rparr>))"

text \<open>
  Modelled from the spec: whether the account already has a pending request for the
  same action (section 4.5), and the request as it is first stored; ids count up from 1.
\<close>

definition pending_duplicate :: "nat \<Rightarrow> lock_action \<Rightarrow> core \<Rightarrow> bool" where
  "pending_duplicate target act c =
     list_ex (\<lambda>r. target_account_id r = target \<and> lr_action r = act \<and> lr_state r = Pending)
       (lock_requests c)"

definition new_request ::
  "nat \<Rightarrow> nat \<Rightarrow> account_role \<Rightarrow> nat \<Rightarrow> lock_action \<Rightarrow> string option \<Rightarrow> core \<Rightarrow> lock_request" where
  "new_request now actor actor_role target act rsn c =
     \<lparr>request_id = Suc (length (lock_requests c)), target_account_id = target, lr_action = act,
      requested_by_account_id = actor, requested_by_role = actor_role, lr_reason = rsn,
      lr_state = Pending, reviewed_by_account_id = None, lr_comment = None,
      lr_created_at = now, resolved_at = None\<rparr>"

text \<open>
  Modelled from the spec: the lock/unlock request handler, missing from the sources.
  Section 4.5: a superadmin's action executes immediately, and its request is created
  and resolved as executed at once; an admin must give a reason (ValidationError
  otherwise), a second pending request for the same account and action is rejected
  with DuplicateRequest, and otherwise a pending request is created. Section 7: Forbidden
  for an insufficient role, NotFound for an unknown account. The input is validated
  before the account is looked up.
\<close>

definition request_lock_unlock ::
  "nat \<Rightarrow> nat \<Rightarrow> account_role \<Rightarrow> nat \<Rightarrow> lock_action \<Rightarrow> string option \<Rightarrow> core
   \<Rightarrow> (error_kind + lock_request) \<times> core" where
  "request_lock_unlock now actor actor_role target act rsn c =
     (case actor_role of
        User \<Rightarrow> (Inl Forbidden, c)
      | Superadmin \<Rightarrow>
          (case accounts c target of
             None \<Rightarrow> (Inl NotFound, c)
           | Some a \<Rightarrow>
               (let r = (new_request now actor actor_role target act rsn c)
                          \<lparr>lr_state := Executed, reviewed_by_account_id := Some actor,
                           resolved_at := Some now\<rparr>
                in (Inr r, execute_action act target (c\<lparr>lock_requests := lock_requests c @ [r]\<rparr>))))
      | Admin \<Rightarrow>
          if rsn = None \<or> rsn = Some [] then (Inl ValidationError, c)
          else (case accounts c target of
                  None \<Rightarrow> (Inl NotFound, c)
                | Some a \<Rightarrow>
                    if pending_duplicate target act c then (Inl DuplicateRequest, c)
                    else (let r = new_request now actor actor_role target act rsn c
                          in (Inr r, c\<lparr>lock_requests := lock_requests c @ [r]\<rparr>))))"

text \<open>
  Modelled from the spec: the review handler, missing from the sources. Sections 3 and
  4.5: only a superadmin may review (Forbidden otherwise); a request is resolved once,
  from pending; approval is execution, so an approved request is stored as executed and
  its action takes effect; a rejection leaves the account untouched.
\<close>

definition review ::
  "nat \<Rightarrow> nat \<Rightarrow> account_role \<Rightarrow> nat \<Rightarrow> review_action \<Rightarrow> string option \<Rightarrow> core
   \<Rightarrow> (error_kind + lock_request) \<times> core" where
  "review now actor actor_role rid act cmt c =
     (if actor_role \<noteq> Superadmin then (Inl Forbidden, c)
      else (case find (\<lambda>r. request_id r = rid) (lock_requests c) of
              None \<Rightarrow> (Inl NotFound, c)
            | Some r \<Rightarrow>
                if lr_state r \<noteq> Pending then (Inl AlreadyResolved, c)
                else
                  (let r' = r\<lparr>lr_state := (case act of Approve \<Rightarrow> Executed | Reject \<Rightarrow> Rejected),
                              reviewed_by_account_id := Some actor, lr_comment := cmt,
                              resolved_at := Some now\<rparr>;
                       c1 = c\<lparr>lock_requests :=
                               map (\<lambda>x. if request_id x = rid then r' else x) (lock_requests c)\<rparr>
                   in (Inr r',
                       case act of
                         Approve \<Rightarrow> execute_action (lr_action r) (target_account_id r) c1
                       | Reject \<Rightarrow> c1))))"

text \<open>The stored state of the request with a given id, if there is one.\<close>

definition request_state_of :: "core \<Rightarrow> nat \<Rightarrow> request_state option" where
  "request_state_of c rid = map_option lr_state (find (\<lambda>r. request_id r = rid) (lock_requests c))"

text \<open>
  Modelled from the spec: the HTTP face of the request handler, missing from the
  sources. Section 6: the call carries the target user id, the action and an optional
  reason; the page reads \<^verbatim>\<open>result.action\<close> as "executed" or "request_created".
\<close>

definition parse_action :: "string \<Rightarrow> lock_action option" where
  "parse_action a = (if a = ''lock'' then Some Lock else if a = ''unlock'' then Some Unlock else None)"

fun error_detail :: "error_kind \<Rightarrow> string" where
  "error_detail ValidationError = ''ValidationError''"
| "error_detail Unauthorized = ''Unauthorized''"
| "error_detail Forbidden = ''Forbidden''"
| "error_detail DuplicateRequest = ''DuplicateRequest''"
| "error_detail AlreadyResolved = ''AlreadyResolved''"
| "error_detail DeviceRevoked = ''DeviceRevoked''"
| "error_detail NotFound = ''NotFound''"
| "error_detail NotRegistered = ''NotRegistered''"

definition lock_unlock_endpoint ::
  "nat \<Rightarrow> nat \<Rightarrow> account_role \<Rightarrow> nat \<Rightarrow> string \<Rightarrow> string option \<Rightarrow> core \<Rightarrow> fetch_result \<times> core" where
  "lock_unlock_endpoint now actor actor_role target act rsn c =
     (case parse_action act of
        None \<Rightarrow> (NotOk (Some (error_detail ValidationError)), c)
      | Some a \<Rightarrow>
          (case request_lock_unlock now actor actor_role target a rsn c of
             (Inl e, c') \<Rightarrow> (NotOk (Some (error_detail e)), c')
           | (Inr r, c') \<Rightarrow>
               (Ok200 True (if lr_state r = Executed then ''executed'' else ''request_created''), c')))"

text \<open>
  Modelled from the spec: the HTTP face of the review handler, missing from the
  sources. Section 6: the call carries the request id, the action (approve or reject)
  and an optional comment, and answers with the updated request; the page reads
  \<^verbatim>\<open>result.executed\<close>.
\<close>

definition parse_review_action :: "string \<Rightarrow> review_action option" where
  "parse_review_action a =
     (if a = ''approve'' then Some Approve else if a = ''reject'' then Some Reject else None)"

definition review_endpoint ::
  "nat \<Rightarrow> nat \<Rightarrow> account_role \<Rightarrow> nat \<Rightarrow> string \<Rightarrow> string option \<Rightarrow> core \<Rightarrow> review_result \<times> core" where
  "review_endpoint now actor actor_role rid act cmt c =
     (case parse_review_action act of
        None \<Rightarrow> (ReviewNotOk (Some (error_detail ValidationError)), c)
      | Some a \<Rightarrow>
          (case review now actor actor_role rid a cmt c of
             (Inl e, c') \<Rightarrow> (ReviewNotOk (Some (error_detail e)), c')
           | (Inr r, c') \<Rightarrow> (ReviewOk True (lr_state r = Executed), c')))"

subsection \<open>GeoContext Resolver and risk scoring\<close>

text \<open>
  Modelled from the spec: the GeoContext of section 4.1, with its three sources
  browser, ip_lookup and unknown.
\<close>

datatype geo_source = SrcBrowser | SrcIpLookup | SrcUnknown

record geo_context =
  country :: "string option"
  city :: "string option"
  geo_latitude :: "real option"
  geo_longitude :: "real option"
  geo_source :: geo_source

text \<open>What an IP-to-location lookup gives when it succeeds.\<close>

record ip_location =
  ip_country :: string
  ip_city :: string
  ip_latitude :: real
  ip_longitude :: real

text \<open>
  Modelled from the spec: the GeoContext resolver, missing from the sources. Section
  4.1: browser coordinates are preferred when permission_status is granted and latitude
  and longitude are both numeric; otherwise the IP lookup is used; when that fails too
  the record is unknown with null coordinates. The lookup's outcome is the argument
  \<open>lookup\<close>, \<open>None\<close> when it failed or timed out. Country and city of a browser-sourced
  record are left open there; the model takes them from the lookup when it succeeded.
\<close>

definition resolveGeoContext :: "browser_location option \<Rightarrow> ip_location option \<Rightarrow> geo_context" where
  "resolveGeoContext browserLocation lookup =
     (let fallback =
        (case lookup of
           Some l \<Rightarrow>
             \<lparr>country = Some (ip_country l), city = Some (ip_city l),
              geo_latitude = Some (ip_latitude l), geo_longitude = Some (ip_longitude l),
              geo_source = SrcIpLookup\<rparr>
         | None \<Rightarrow>
             \<lparr>country = None, city = None, geo_latitude = None, geo_longitude = None,
              geo_source = SrcUnknown\<rparr>)
      in case browserLocation of
           None \<Rightarrow> fallback
         | Some b \<Rightarrow>
             (case (permission_status b = ''granted'', latitude b, longitude b) of
                (True, JNum lat, JNum lon) \<Rightarrow>
                  \<lparr>country = map_option ip_country lookup, city = map_option ip_city lookup,
                   geo_latitude = Some lat, geo_longitude = Some lon, geo_source = SrcBrowser\<rparr>
              | _ \<Rightarrow> fallback))"

text \<open>
  Modelled from the spec: the factors, the weights and the score of the Risk Assessment Engine,
  missing from the sources. Section 4.2: untrusted device 0.35, country mismatch 0.25,
  impossible travel 0.30, failed-attempt burst 0.25, unknown geo 0.0; the score is the
  sum of the triggered weights, capped at 1.0; the classification uses the fixed
  thresholds 0.6 and 0.3.
\<close>

datatype risk_factor = UntrustedDevice | CountryMismatch | ImpossibleTravel | FailedBurst | UnknownGeo

fun weight :: "risk_factor \<Rightarrow> real" where
  "weight UntrustedDevice = 0.35"
| "weight CountryMismatch = 0.25"
| "weight ImpossibleTravel = 0.30"
| "weight FailedBurst = 0.25"
| "weight UnknownGeo = 0.0"

definition score :: "risk_factor list \<Rightarrow> real" where
  "score triggered = min 1.0 (sum_list (map weight triggered))"

definition classification :: "real \<Rightarrow> string" where
  "classification sc =
     (if sc \<ge> 0.6 then ''critical'' else if sc \<ge> 0.3 then ''suspicious'' else ''normal'')"

section \<open>Concrete inputs for the closed examples\<close>

definition example_runtime :: runtime where
  "example_runtime =
     \<lparr>jwt_sign = (\<lambda>now p secret expiresIn. concat (map snd p) @ ''.'' @ expiresIn),
      jwt_verify = (\<lambda>now tok secret.
         if tok = ''good''
         then Some [(''id'', ''1''), (''username'', ''alice''), (''role'', ''admin'')]
         else None),
      env_JWT_SECRET = None\<rparr>"

definition example_server :: server where
  "example_server =
     data_server ''2026-01-01T00:00:00.000Z'' ''2026-01-01T00:00:00.000Z''
       ''2026-01-01T00:00:00.001Z'' ''2026-01-01T00:00:00.001Z'' ''2026-01-01T00:00:00.001Z''
       ''2026-01-01T00:00:00.002Z'' ''log-1'' ''log-2'' ''log-3''"

definition login_body :: "jsval \<Rightarrow> jsval \<Rightarrow> string \<Rightarrow> jsval" where
  "login_body u p k =
     (if k = ''username'' then u else if k = ''password'' then p else JUndefined)"

definition bad_paging_query :: query where
  "bad_paging_query k =
     (if k = ''page'' then Some ''abc'' else if k = ''limit'' then Some ''xyz'' else None)"

definition example_browser :: browser where
  "example_browser =
     \<lparr>subtle_digest = Some (\<lambda>bs. of_nat (length bs) + 0xab00),
      json_utf8 = (\<lambda>fp. map (\<lambda>c. of_nat (of_char c)) (userAgent fp))\<rparr>"

definition example_fingerprint :: fingerprint where
  "example_fingerprint =
     \<lparr>userAgent = ''UA'', language = ''en'', platform = ''Linux'', screen_width = 1920,
      screen_height = 1080, timezone = ''UTC''\<rparr>"

definition example_storage :: storage where
  "example_storage =
     [''access_token'' \<mapsto> ''good'', ''refresh_token'' \<mapsto> ''r'', ''role'' \<mapsto> ''admin'']"

definition example_device :: device where
  "example_device =
     \<lparr>device_uuid = ''dev-1'', secret_token = ''s3cret'', owner_account_id = 2,
      dev_status = DevActive, last_heartbeat_at = Some 100, trust_level = 1\<rparr>"

definition example_registry :: registry where
  "example_registry = [''dev-1'' \<mapsto> example_device]"

definition example_account :: account where
  "example_account =
     \<lparr>credential_hash = ''h'', acct_role = User, locked = False, failed_login_attempts = 0,
      last_login_country = None\<rparr>"

definition example_pending :: lock_request where
  "example_pending =
     \<lparr>request_id = 1, target_account_id = 2, lr_action = Lock, requested_by_account_id = 5,
      requested_by_role = Admin, lr_reason = Some ''first report'', lr_state = Pending,
      reviewed_by_account_id = None, lr_comment = None, lr_created_at = 10,
      resolved_at = None\<rparr>"

definition fresh_core :: core where
  "fresh_core = \<lparr>accounts = [2 \<mapsto> example_account], sessions = [], lock_requests = []\<rparr>"

definition example_core :: core where
  "example_core = fresh_core\<lparr>lock_requests := [example_pending]\<rparr>"

definition example_modal :: lock_modal where
  "example_modal =
     \<lparr>searchTerm = ''bob'', currentUser_role = Some ''admin'', selectedUser = Some 2,
      modalAction = ''lock'',
      reason_text = '' policy violation '', message = ([], []), loading = False,
      showModal = True, list_refreshed = False\<rparr>"

definition example_review_modal :: review_modal where
  "example_review_modal =
     \<lparr>selectedRequest = Some 1, rv_modalAction = ''approve'', comment_text = ''ok'',
      rv_message = ([], []), rv_loading = False, rv_showModal = True, requests_refreshed = False\<rparr>"

definition example_location :: browser_location where
  "example_location =
     \<lparr>permission_status = ''granted'', latitude = JNum 48.85, longitude = JNum 2.35,
      accuracy_m = JNum 20\<rparr>"

definition example_to_text :: "jsval \<Rightarrow> string" where
  "example_to_text v =
     (case v of
        JNum r \<Rightarrow> if r = 48.85 then ''48.85'' else if r = 2.35 then ''2.35'' else ''0''
      | _ \<Rightarrow> ''null'')"

definition example_ip_location :: ip_location where
  "example_ip_location =
     \<lparr>ip_country = ''FR'', ip_city = ''Paris'', ip_latitude = 48.86, ip_longitude = 2.34\<rparr>"

definition example_navigator :: navigator where
  "example_navigator =
     \<lparr>has_geolocation = True, permission_state = Some ''prompt'',
      current_position = Position 48.85 2.35 20\<rparr>"

section \<open>Theorems\<close>

text \<open>
  C1. For every risk score in [0,1] the badge class follows the fixed thresholds exactly:
  critical from 0.6 upwards, suspicious from 0.3 up to but excluding 0.6, normal below
  0.3; the boundary values 0.3 and 0.6 are suspicious and critical.
\<close>

theorem risk_badge_thresholds:
  assumes "0 \<le> r" and "r \<le> 1"
  shows "(getRiskBadgeClass r = ''risk-badge critical'' \<longleftrightarrow> r \<ge> 0.6)
       \<and> (getRiskBadgeClass r = ''risk-badge suspicious'' \<longleftrightarrow> 0.3 \<le> r \<and> r < 0.6)
       \<and> (getRiskBadgeClass r = ''risk-badge normal'' \<longleftrightarrow> r < 0.3)
       \<and> getRiskBadgeClass 0.3 = ''risk-badge suspicious''
       \<and> getRiskBadgeClass 0.6 = ''risk-badge critical''"
  by (auto simp: getRiskBadgeClass_def)

theorem risk_badge_thresholds_witness:
  "(0::real) \<le> 0.45 \<and> (0.45::real) \<le> 1
   \<and> getRiskBadgeClass 0.45 = ''risk-badge suspicious''
   \<and> getRiskBadgeClass 0.3 = ''risk-badge suspicious''
   \<and> getRiskBadgeClass 0.6 = ''risk-badge critical''"
  using risk_badge_thresholds [of "0.45"] by simp

subsection \<open>Mock server: login\<close>

lemma find_Some_member: "find P xs = Some x \<Longrightarrow> x \<in> set xs \<and> P x"
  by (induction xs) (auto split: if_splits)

lemma post_login_store: "snd (post_login rt now s b) = s"
  by (simp add: post_login_def Let_def split: option.split)

lemma example_users_no_match:
  "find (\<lambda>u. username u = w) (users example_server) = None
   \<longleftrightarrow> w \<noteq> ''alice'' \<and> w \<noteq> ''bob'' \<and> w \<noteq> ''carol''"
  by (auto simp: example_server_def data_server_def data_users_def)

text \<open>
  C4, as stated, fails on the mock server: a login for an unknown user is answered 401
  and leaves the whole store as it was (no counter is incremented, no record is
  written), and a login for an existing user with any password at all is answered 200.
\<close>

theorem failed_login_not_recorded:
  "post_login example_runtime 0 example_server (login_body (JStr ''mallory'') (JStr ''guess''))
     = ((401, Detail ''Invalid credentials''), example_server)
   \<and> fst (fst (post_login example_runtime 0 example_server
                 (login_body (JStr ''alice'') (JStr ''not-her-password'')))) = 200"
  by (simp add: post_login_def login_body_def Let_def example_server_def data_server_def
      data_users_def)

text \<open>
  C4, amended. A login whose username matches no user is answered 401 with the one
  generic detail "Invalid credentials", whatever password it carries, and the store
  (users and logs) is left unchanged: nothing is counted and nothing is recorded. A
  login whose username is that of a stored user is answered 200 whatever password it
  carries, so a wrong password is no error. Every 401 of the handler carries the same
  detail.
\<close>

theorem failed_login_generic_stateless:
  assumes "truthy (b ''username'')"
  shows "(find (\<lambda>u. JStr (username u) = b ''username'') (users s) = None \<longrightarrow>
            post_login rt now s (b(''password'' := p)) = ((401, Detail ''Invalid credentials''), s))
       \<and> (find (\<lambda>u. JStr (username u) = b ''username'') (users s) \<noteq> None \<longrightarrow>
            fst (fst (post_login rt now s (b(''password'' := p)))) = 200
            \<and> snd (post_login rt now s (b(''password'' := p))) = s)
       \<and> (\<forall>s' b'. fst (fst (post_login rt now s' b')) = 401 \<longrightarrow>
             snd (fst (post_login rt now s' b')) = Detail ''Invalid credentials'')"
  using assms by (auto simp: post_login_def Let_def split: option.split)

theorem failed_login_generic_stateless_witness:
  "post_login example_runtime 7 example_server
      ((login_body (JStr ''mallory'') JNull)(''password'' := JStr ''guess''))
     = ((401, Detail ''Invalid credentials''), example_server)
   \<and> fst (fst (post_login example_runtime 7 example_server
                 ((login_body (JStr ''alice'') JNull)(''password'' := JStr ''guess'')))) = 200
   \<and> snd (post_login example_runtime 7 example_server
            ((login_body (JStr ''alice'') JNull)(''password'' := JStr ''guess''))) = example_server"
proof -
  have 1: "truthy (login_body (JStr ''mallory'') JNull ''username'')"
          "truthy (login_body (JStr ''alice'') JNull ''username'')"
    by (simp_all add: login_body_def)
  have 2: "find (\<lambda>u. JStr (username u) = login_body (JStr ''mallory'') JNull ''username'')
             (users example_server) = None"
    by (simp add: login_body_def example_users_no_match)
  have 3: "find (\<lambda>u. JStr (username u) = login_body (JStr ''alice'') JNull ''username'')
             (users example_server) \<noteq> None"
    by (simp add: login_body_def example_users_no_match)
  from failed_login_generic_stateless
         [where b = "login_body (JStr ''mallory'') JNull" and s = example_server
            and rt = example_runtime and now = 7 and p = "JStr ''guess''", OF 1(1)]
       failed_login_generic_stateless
         [where b = "login_body (JStr ''alice'') JNull" and s = example_server
            and rt = example_runtime and now = 7 and p = "JStr ''guess''", OF 1(2)]
       2 3
  show ?thesis by blast
qed

text \<open>
  C8, as stated, fails at a missing or empty username: no user matches it, and the
  answer is 400, not 401.
\<close>

theorem login_empty_username_is_400:
  "find (\<lambda>u. JStr (username u) = JStr []) (users example_server) = None
   \<and> fst (post_login example_runtime 0 example_server (login_body (JStr []) (JStr ''pw'')))
       = (400, Detail ''username required'')
   \<and> fst (fst (post_login example_runtime 0 example_server (login_body (JStr []) (JStr ''pw''))))
       \<noteq> 401"
  by (simp add: post_login_def login_body_def Let_def example_users_no_match)

text \<open>
  C8, amended. The login handler never reads the password: two requests that differ
  only in the password have the same outcome. The store is unchanged, the status is 400
  when the username is missing or falsy, 401 when it is truthy and matches no user, and
  200 otherwise; tokens are issued exactly when the username is truthy and is the name
  of a stored user, the detail is "username required" exactly when the username is
  missing or falsy, and "Invalid credentials" exactly when it is truthy and matches no
  user.
\<close>

theorem login_never_reads_password:
  "post_login rt now s (b(''password'' := p1)) = post_login rt now s (b(''password'' := p2))
   \<and> snd (post_login rt now s b) = s
   \<and> fst (fst (post_login rt now s b)) =
       (if \<not> truthy (b ''username'') then 400
        else if find (\<lambda>u. JStr (username u) = b ''username'') (users s) = None then 401
        else 200)
   \<and> ((\<exists>a r ro un. snd (fst (post_login rt now s b)) = Tokens a r ro un) \<longleftrightarrow>
        (truthy (b ''username'') \<and> (\<exists>u \<in> set (users s). JStr (username u) = b ''username'')))
   \<and> (snd (fst (post_login rt now s b)) = Detail ''username required'' \<longleftrightarrow>
        \<not> truthy (b ''username''))
   \<and> (snd (fst (post_login rt now s b)) = Detail ''Invalid credentials'' \<longleftrightarrow>
        truthy (b ''username'')
        \<and> find (\<lambda>u. JStr (username u) = b ''username'') (users s) = None)"
proof -
  have 1: "post_login rt now s (b(''password'' := p1)) = post_login rt now s (b(''password'' := p2))"
    by (simp add: post_login_def)
  have 2: "fst (fst (post_login rt now s b)) =
       (if \<not> truthy (b ''username'') then 400
        else if find (\<lambda>u. JStr (username u) = b ''username'') (users s) = None then 401
        else 200)"
    by (auto simp: post_login_def Let_def split: option.split)
  have 3: "(\<exists>a r ro un. snd (fst (post_login rt now s b)) = Tokens a r ro un) \<longleftrightarrow>
        (truthy (b ''username'') \<and> (\<exists>u \<in> set (users s). JStr (username u) = b ''username''))"
    by (auto simp: post_login_def Let_def find_None_iff split: option.split
        dest: find_Some_member)
  have 4: "snd (fst (post_login rt now s b)) = Detail ''username required'' \<longleftrightarrow>
        \<not> truthy (b ''username'')"
    by (auto simp: post_login_def Let_def split: option.split)
  have 5: "snd (fst (post_login rt now s b)) = Detail ''Invalid credentials'' \<longleftrightarrow>
        truthy (b ''username'')
        \<and> find (\<lambda>u. JStr (username u) = b ''username'') (users s) = None"
    by (auto simp: post_login_def Let_def split: option.split)
  show ?thesis
    by (intro conjI) (rule 1 post_login_store 2 3 4 5)+
qed

subsection \<open>Mock server: logout\<close>

text \<open>
  C6, as stated, fails on the mock server: the first logout with a valid token succeeds
  and sets nothing, the store after it is the store before it; and since the client
  clears its tokens on logout, its second logout sends "Bearer null" and is answered
  401.
\<close>

theorem first_logout_sets_nothing:
  "post_logout example_runtime 0 example_server (Some ''Bearer good'')
     = ((200, SuccessTrue), example_server)
   \<and> logoutUser (\<lambda>a s. post_logout example_runtime 0 s a) example_storage example_server
     = (True, Map.empty, example_server)
   \<and> logoutUser (\<lambda>a s. post_logout example_runtime 1 s a) Map.empty example_server
     = (False, Map.empty, example_server)
   \<and> fst (post_logout example_runtime 1 example_server (Some ''Bearer null''))
     = (401, Detail ''Invalid or expired token'')"
  by (simp add: logoutUser_def post_logout_def authenticateToken_def example_runtime_def
      example_storage_def)

lemma post_logout_store: "snd (post_logout rt now s authorization) = s"
  by (simp add: post_logout_def split: sum.split)

lemma bearer_null: "split_space (''Bearer '' @ ''null'') = [''Bearer'', ''null'']"
  by simp

text \<open>
  C6, amended. Logout is idempotent because it is stateless: every authenticated call
  answers success and leaves the store unchanged, so a second call answers as the first
  did and changes nothing either; the server keeps no session record to close. The
  client's \<^verbatim>\<open>logoutUser\<close> leaves the server's store unchanged and its own storage empty,
  so its next call sends "Bearer null" and, that being no valid token, is answered 401
  and returns false.
\<close>

theorem logout_stateless_idempotent:
  assumes "authenticateToken rt t1 auth = Inr p1" and "authenticateToken rt t2 auth = Inr p2"
  shows "post_logout rt t1 s auth = ((200, SuccessTrue), s)
       \<and> post_logout rt t2 (snd (post_logout rt t1 s auth)) auth = ((200, SuccessTrue), s)
       \<and> snd (logoutUser (\<lambda>a st. post_logout rt t1 st a) ls s) = (Map.empty, s)
       \<and> (jwt_verify rt t2 ''null'' (JWT_SECRET rt) = None \<longrightarrow>
            post_logout rt t2 s (Some ''Bearer null'') = ((401, Detail ''Invalid or expired token''), s)
            \<and> logoutUser (\<lambda>a st. post_logout rt t2 st a) Map.empty s = (False, Map.empty, s))"
proof -
  have 1: "post_logout rt t1 s auth = ((200, SuccessTrue), s)"
    using assms(1) by (simp add: post_logout_def)
  have 2: "post_logout rt t2 (snd (post_logout rt t1 s auth)) auth = ((200, SuccessTrue), s)"
    using assms by (simp add: post_logout_def)
  have 3: "snd (logoutUser (\<lambda>a st. post_logout rt t1 st a) ls s) = (Map.empty, s)"
    by (simp add: logoutUser_def Let_def case_prod_beta post_logout_store)
  have 4: "post_logout rt t2 s (Some ''Bearer null'') = ((401, Detail ''Invalid or expired token''), s)
           \<and> logoutUser (\<lambda>a st. post_logout rt t2 st a) Map.empty s = (False, Map.empty, s)"
    if "jwt_verify rt t2 ''null'' (JWT_SECRET rt) = None"
    using that by (simp add: logoutUser_def post_logout_def authenticateToken_def)
  show ?thesis using 1 2 3 4 by blast
qed

theorem logout_stateless_idempotent_witness:
  "post_logout example_runtime 1 example_server (Some ''Bearer good'')
     = ((200, SuccessTrue), example_server)
   \<and> post_logout example_runtime 2
        (snd (post_logout example_runtime 1 example_server (Some ''Bearer good'')))
        (Some ''Bearer good'')
     = ((200, SuccessTrue), example_server)
   \<and> snd (logoutUser (\<lambda>a st. post_logout example_runtime 1 st a) example_storage example_server)
     = (Map.empty, example_server)
   \<and> logoutUser (\<lambda>a st. post_logout example_runtime 2 st a) Map.empty example_server
     = (False, Map.empty, example_server)"
proof -
  have a: "\<And>t. authenticateToken example_runtime t (Some ''Bearer good'')
             = Inr [(''id'', ''1''), (''username'', ''alice''), (''role'', ''admin'')]"
    by (simp add: authenticateToken_def example_runtime_def)
  have n: "jwt_verify example_runtime 2 ''null'' (JWT_SECRET example_runtime) = None"
    by (simp add: example_runtime_def)
  note t = logout_stateless_idempotent
             [where rt = example_runtime and ?t1.0 = 1 and ?t2.0 = 2 and s = example_server
                and ls = example_storage, OF a a]
  from t n show ?thesis by blast
qed

subsection \<open>Mock server: paginated listings\<close>

lemma js_slice_length_limit:
  "0 \<le> a \<Longrightarrow> 0 \<le> l \<Longrightarrow>
   length (js_slice xs (Num a) (js_arith plus (Num a) (Num l))) \<le> nat l"
  by (auto simp: js_slice_def Let_def)

lemma paging_at_most_100:
  assumes "page = Math_max 1 p" and "limit = Math_min 100 (Math_max 1 l)"
      and "start = js_arith times (js_arith minus page (Num 1)) limit"
  shows "length (js_slice xs start (js_arith plus start limit)) \<le> 100"
proof (cases "\<exists>a b. page = Num a \<and> limit = Num b")
  case True
  then obtain a b where ab: "page = Num a" "limit = Num b" by blast
  from assms(1) ab(1) have a1: "1 \<le> a" by (cases p) auto
  from assms(2) ab(2) have b1: "1 \<le> b" "b \<le> 100" by (cases l; auto)+
  have st: "start = Num ((a - 1) * b)" using assms(3) ab by simp
  have "0 \<le> (a - 1) * b" using a1 b1 by simp
  then have "length (js_slice xs start (js_arith plus start limit)) \<le> nat b"
    unfolding st ab using b1 by (intro js_slice_length_limit) auto
  with b1 show ?thesis by linarith
next
  case False
  then have "start = NaN"
    using assms(3) by (cases page; cases limit) auto
  then show ?thesis by (simp add: js_slice_def)
qed

text \<open>What holds of every listing: at most 100 items, and a total that page and limit do not touch.\<close>

lemma admin_users_at_most_100:
  "admin_users_handler s q = (st, UserPage n page limit items) \<Longrightarrow> length items \<le> 100"
  unfolding admin_users_handler_def Let_def
  using paging_at_most_100 [OF refl refl refl] by auto

lemma admin_users_total_independent:
  "admin_users_handler s (q(''page'' := a, ''limit'' := b)) = (st, UserPage n page limit items)
   \<Longrightarrow> admin_users_handler s q = (st', UserPage n' page' limit' items')
   \<Longrightarrow> n = n'"
  by (auto simp: admin_users_handler_def Let_def)

lemma admin_users_numeric_clamped:
  "parseInt10 (or_default (q ''page'') ''1'') = Num p \<Longrightarrow>
   parseInt10 (or_default (q ''limit'') ''25'') = Num l \<Longrightarrow>
   \<exists>n items p' l'. admin_users_handler s q = (200, UserPage n (Num p') (Num l') items)
      \<and> 1 \<le> p' \<and> 1 \<le> l' \<and> l' \<le> 100"
  by (auto simp: admin_users_handler_def Let_def)

text \<open>
  C9 at a page and a limit that are not numbers: \<^verbatim>\<open>parseInt\<close> gives NaN, \<^verbatim>\<open>Math.max\<close>
  and \<^verbatim>\<open>Math.min\<close> pass it on, and the response reports page NaN and limit NaN (null
  in the JSON) with no items, where the claim has page at least 1 and limit in 1..100.
\<close>

theorem admin_users_page_not_clamped:
  "admin_users_handler s bad_paging_query = (200, UserPage (length (users s)) NaN NaN [])
   \<and> logs_handler s bad_paging_query = (200, LogPage (length (logs s)) NaN NaN [])"
  by (simp add: admin_users_handler_def logs_handler_def bad_paging_query_def or_default_def
      parseInt10_def is_ws_def is_digit_def js_slice_def toLowerCase_def Let_def)


subsection \<open>Device fingerprint\<close>

lemma toString16_small: "n < 16 \<Longrightarrow> toString16 n = [hex_digits ! n]"
  by simp

lemma toString16_byte:
  "16 \<le> n \<Longrightarrow> n < 256 \<Longrightarrow> toString16 n = [hex_digits ! (n div 16), hex_digits ! (n mod 16)]"
  by (subst toString16.simps) (simp add: less_mult_imp_div_less)

declare toString16.simps [simp del]

lemma hex_digit_mem: "n < 16 \<Longrightarrow> hex_digits ! n \<in> set hex_digits"
  by (rule nth_mem) (simp add: hex_digits_def)

lemma byte_hex_cases:
  "(unat b < 16 \<and> byte_hex b = [CHR ''0'', hex_digits ! unat b])
   \<or> (16 \<le> unat b \<and> byte_hex b = [hex_digits ! (unat b div 16), hex_digits ! (unat b mod 16)])"
proof -
  have "unat b < 256" using unsigned_less [of b] by simp
  then show ?thesis
    by (cases "unat b < 16")
       (simp_all add: byte_hex_def padStart_def toString16_byte toString16_small)
qed

lemma byte_hex_length: "length (byte_hex b) = 2"
  using byte_hex_cases [of b] by auto

lemma byte_hex_chars: "c \<in> set (byte_hex b) \<Longrightarrow> c \<in> set hex_digits"
proof -
  assume c: "c \<in> set (byte_hex b)"
  have z: "CHR ''0'' \<in> set hex_digits" by (simp add: hex_digits_def)
  have "unat b < 256" using unsigned_less [of b] by simp
  then have d: "unat b div 16 < 16" by (simp add: less_mult_imp_div_less)
  from byte_hex_cases [of b] c z d show ?thesis
    by (auto simp: hex_digit_mem)
qed

lemma concat_byte_hex_length: "length (concat (map byte_hex bs)) = 2 * length bs"
  by (induction bs) (simp_all add: byte_hex_length)

lemma hash_bytes_length: "length (hash_bytes h) = 32"
  by (simp add: hash_bytes_def)

lemma generateDeviceUUID_format:
  "generateDeviceUUID br fp = Inr u \<Longrightarrow> length u = 64 \<and> (\<forall>c \<in> set u. c \<in> set hex_digits)"
  by (auto simp: generateDeviceUUID_def concat_byte_hex_length hash_bytes_length
      split: option.splits dest: byte_hex_chars)

lemma getOrCreateDeviceUUID_again:
  "getOrCreateDeviceUUID br fp w1 st = (Inr u1, st1) \<Longrightarrow>
   fst (getOrCreateDeviceUUID br fp w2 st1) = Inr u1"
  by (auto simp: getOrCreateDeviceUUID_def Let_def
      split: option.splits if_splits sum.splits dest: generateDeviceUUID_format)

lemma example_uuid:
  "generateDeviceUUID example_browser example_fingerprint
     = Inr ''000000000000000000000000000000000000000000000000000000000000ab02''"
  by code_simp

text \<open>
  C10. \<^verbatim>\<open>generateDeviceUUID\<close> returns whenever Web Crypto is available; what it returns is
  64 characters long, each a lowercase hexadecimal digit; two runs on fingerprints with
  the same user agent, language, platform, screen width and height and time zone return
  the same value; and once \<^verbatim>\<open>getOrCreateDeviceUUID\<close> has returned a UUID, the next call
  with the same fingerprint returns that UUID again, whether or not the first call could
  write to the storage.
\<close>

theorem device_uuid_deterministic_hex64:
  "(subtle_digest br \<noteq> None \<longrightarrow> (\<exists>u. generateDeviceUUID br fp = Inr u))
   \<and> (generateDeviceUUID br fp = Inr u \<longrightarrow>
        length u = 64 \<and> (\<forall>c \<in> set u. c \<in> set ''0123456789abcdef''))
   \<and> (userAgent fp' = userAgent fp \<and> language fp' = language fp \<and> platform fp' = platform fp
        \<and> screen_width fp' = screen_width fp \<and> screen_height fp' = screen_height fp
        \<and> timezone fp' = timezone fp
        \<longrightarrow> generateDeviceUUID br fp' = generateDeviceUUID br fp)
   \<and> (getOrCreateDeviceUUID br fp w1 st = (Inr u1, st1) \<longrightarrow>
        fst (getOrCreateDeviceUUID br fp w2 st1) = Inr u1)"
proof (intro conjI impI)
  assume "subtle_digest br \<noteq> None"
  then show "\<exists>u. generateDeviceUUID br fp = Inr u"
    by (auto simp: generateDeviceUUID_def)
next
  assume "generateDeviceUUID br fp = Inr u"
  from generateDeviceUUID_format [OF this] show "length u = 64" by simp
next
  assume "generateDeviceUUID br fp = Inr u"
  from generateDeviceUUID_format [OF this]
  show "\<forall>c \<in> set u. c \<in> set ''0123456789abcdef''"
    by (simp add: hex_digits_def)
next
  assume "userAgent fp' = userAgent fp \<and> language fp' = language fp \<and> platform fp' = platform fp
        \<and> screen_width fp' = screen_width fp \<and> screen_height fp' = screen_height fp
        \<and> timezone fp' = timezone fp"
  then have "fp' = fp" by (cases fp; cases fp') simp
  then show "generateDeviceUUID br fp' = generateDeviceUUID br fp" by simp
next
  assume "getOrCreateDeviceUUID br fp w1 st = (Inr u1, st1)"
  then show "fst (getOrCreateDeviceUUID br fp w2 st1) = Inr u1"
    by (rule getOrCreateDeviceUUID_again)
qed

theorem device_uuid_deterministic_hex64_witness:
  "generateDeviceUUID example_browser example_fingerprint
     = Inr ''000000000000000000000000000000000000000000000000000000000000ab02''
   \<and> length ''000000000000000000000000000000000000000000000000000000000000ab02'' = 64
   \<and> getOrCreateDeviceUUID example_browser example_fingerprint False Map.empty
     = (Inr ''000000000000000000000000000000000000000000000000000000000000ab02'', Map.empty)
   \<and> fst (getOrCreateDeviceUUID example_browser example_fingerprint True Map.empty)
     = Inr ''000000000000000000000000000000000000000000000000000000000000ab02''"
proof -
  let ?u = "''000000000000000000000000000000000000000000000000000000000000ab02''"
  have first: "getOrCreateDeviceUUID example_browser example_fingerprint False Map.empty
                 = (Inr ?u, Map.empty)"
    by (simp add: getOrCreateDeviceUUID_def example_uuid)
  from device_uuid_deterministic_hex64
         [where br = example_browser and fp = example_fingerprint and u = ?u and ?u1.0 = ?u
            and ?w1.0 = False and st = Map.empty and ?st1.0 = Map.empty and ?w2.0 = True
            and fp' = example_fingerprint]
       example_uuid first
  show ?thesis by simp
qed


subsection \<open>Lock and unlock requests\<close>

lemma js_trim_example: "js_trim '' policy violation '' = ''policy violation''"
  by (simp add: js_trim_def is_ws_def)

lemma request_admin_frame:
  "accounts (snd (request_lock_unlock now actor Admin target act rsn c)) = accounts c
   \<and> sessions (snd (request_lock_unlock now actor Admin target act rsn c)) = sessions c"
  by (simp add: request_lock_unlock_def Let_def split: option.split)

lemma endpoint_snd:
  "snd (lock_unlock_endpoint now actor actor_role target a rsn c)
     = (case parse_action a of
          None \<Rightarrow> c
        | Some x \<Rightarrow> snd (request_lock_unlock now actor actor_role target x rsn c))"
  by (simp add: lock_unlock_endpoint_def split: option.split prod.split sum.split)

lemma endpoint_admin_frame:
  "accounts (snd (lock_unlock_endpoint now actor Admin target a rsn c)) = accounts c
   \<and> sessions (snd (lock_unlock_endpoint now actor Admin target a rsn c)) = sessions c"
  by (simp add: endpoint_snd request_admin_frame split: option.split)

lemma handleLockUnlock_snd:
  "snd (handleLockUnlock backend ui srv) =
     (case selectedUser ui of
        None \<Rightarrow> srv
      | Some uid \<Rightarrow>
          if modalAction ui = [] \<or> (currentUser_role ui = Some ''admin'' \<and> js_trim (reason_text ui) = [])
          then srv
          else snd (backend uid (modalAction ui)
                     (if js_trim (reason_text ui) = [] then None else Some (js_trim (reason_text ui)))
                     srv))"
  by (simp add: handleLockUnlock_def Let_def split: option.split prod.split fetch_result.split)

lemma handle_admin_frame:
  "accounts (snd (handleLockUnlock (lock_unlock_endpoint now actor Admin) ui c)) = accounts c
   \<and> sessions (snd (handleLockUnlock (lock_unlock_endpoint now actor Admin) ui c)) = sessions c"
  by (simp add: handleLockUnlock_snd endpoint_admin_frame split: option.split)

lemma find_fresh_append:
  "list_all (\<lambda>r. request_id r \<le> n) xs \<Longrightarrow> request_id r = Suc n \<Longrightarrow>
   find (\<lambda>x. request_id x = Suc n) (xs @ [r]) = Some r"
  by (induction xs) auto

lemma created_request_store:
  assumes "currentUser_role ui = Some ''admin''" and "selectedUser ui = Some target"
      and "parse_action (modalAction ui) = Some act"
      and "js_trim (reason_text ui) \<noteq> []" and "accounts c target \<noteq> None"
      and "\<not> pending_duplicate target act c"
  shows "snd (handleLockUnlock (lock_unlock_endpoint now actor Admin) ui c)
           = c\<lparr>lock_requests := lock_requests c @
                 [new_request now actor Admin target act (Some (js_trim (reason_text ui))) c]\<rparr>"
proof -
  have ne: "modalAction ui \<noteq> []"
    using assms(3) by (auto simp: parse_action_def split: if_splits)
  show ?thesis using assms ne
    by (auto simp: handleLockUnlock_snd endpoint_snd request_lock_unlock_def Let_def)
qed

lemma approve_new_request:
  assumes "list_all (\<lambda>r. request_id r \<le> length (lock_requests c)) (lock_requests c)"
      and "accounts c target = Some a"
  shows "map_option locked
           (accounts (snd (review now' sa Superadmin (Suc (length (lock_requests c))) Approve cmt
              (c\<lparr>lock_requests := lock_requests c @ [new_request now actor Admin target act rsn c]\<rparr>)))
            target) = Some (act = Lock)"
proof -
  let ?r = "new_request now actor Admin target act rsn c"
  have f: "find (\<lambda>x. request_id x = Suc (length (lock_requests c))) (lock_requests c @ [?r]) = Some ?r"
    by (rule find_fresh_append [OF assms(1)]) (simp add: new_request_def)
  have r: "lr_state ?r = Pending" "lr_action ?r = act" "target_account_id ?r = target"
    by (simp_all add: new_request_def)
  have "accounts (snd (review now' sa Superadmin (Suc (length (lock_requests c))) Approve cmt
                (c\<lparr>lock_requests := lock_requests c @ [?r]\<rparr>))) target
          = accounts (execute_action act target c) target"
    by (simp add: review_def f r Let_def execute_action_def split: option.split lock_action.split)
  then show ?thesis using assms(2)
    by (cases act) (simp_all add: execute_action_def)
qed

text \<open>
  C2, as stated, fails where the account already has a pending request for the same
  action: the admin supplies a reason, the request is sent, the answer is
  DuplicateRequest, and no lock request is created.
\<close>

theorem admin_reasoned_request_refused:
  "snd (handleLockUnlock (lock_unlock_endpoint 50 7 Admin) example_modal example_core) = example_core
   \<and> message (fst (handleLockUnlock (lock_unlock_endpoint 50 7 Admin) example_modal example_core))
       = (''DuplicateRequest'', ''error'')"
  by (simp add: handleLockUnlock_def lock_unlock_endpoint_def request_lock_unlock_def
      example_modal_def example_core_def fresh_core_def example_pending_def parse_action_def
      pending_duplicate_def js_trim_example or_default_def Let_def)

text \<open>
  C2, amended. For an admin who has selected an account and an action (lock or unlock):
  with a reason that is empty after trimming, the page sends nothing, shows the
  validation message and the store is unchanged, and the handler itself answers a
  missing or empty reason with ValidationError; with a reason, if the account exists and
  has no pending request for the same action, exactly one request is appended, in state
  pending, for that account and action, carrying the trimmed reason, and if it has one
  the answer is DuplicateRequest and the store is unchanged; in every case the accounts
  and the sessions are as before; and the created request, once a superadmin approves
  it, is what locks or unlocks the account.
\<close>

theorem admin_lock_request_reason_mandatory:
  assumes "currentUser_role ui = Some ''admin''" and "selectedUser ui = Some target"
      and "parse_action (modalAction ui) = Some act"
  shows "(js_trim (reason_text ui) = [] \<longrightarrow>
            handleLockUnlock (lock_unlock_endpoint now actor Admin) ui c
              = (ui\<lparr>message := (''Please provide a reason for this action'', ''error'')\<rparr>, c))
       \<and> request_lock_unlock now actor Admin target act None c = (Inl ValidationError, c)
       \<and> request_lock_unlock now actor Admin target act (Some []) c = (Inl ValidationError, c)
       \<and> (js_trim (reason_text ui) \<noteq> [] \<longrightarrow> accounts c target \<noteq> None \<longrightarrow>
            \<not> pending_duplicate target act c \<longrightarrow>
            (\<exists>r. lock_requests (snd (handleLockUnlock (lock_unlock_endpoint now actor Admin) ui c))
                   = lock_requests c @ [r]
                \<and> lr_state r = Pending \<and> target_account_id r = target \<and> lr_action r = act
                \<and> lr_reason r = Some (js_trim (reason_text ui)) \<and> requested_by_role r = Admin)
            \<and> message (fst (handleLockUnlock (lock_unlock_endpoint now actor Admin) ui c))
                = (''Request sent to superadmin for approval'', ''info'')
            \<and> (list_all (\<lambda>r. request_id r \<le> length (lock_requests c)) (lock_requests c) \<longrightarrow>
                 map_option locked
                   (accounts
                      (snd (review now' sa Superadmin (Suc (length (lock_requests c))) Approve cmt
                              (snd (handleLockUnlock (lock_unlock_endpoint now actor Admin) ui c))))
                      target)
                 = Some (act = Lock)))
       \<and> (js_trim (reason_text ui) \<noteq> [] \<longrightarrow> accounts c target \<noteq> None \<longrightarrow>
            pending_duplicate target act c \<longrightarrow>
            snd (handleLockUnlock (lock_unlock_endpoint now actor Admin) ui c) = c
            \<and> message (fst (handleLockUnlock (lock_unlock_endpoint now actor Admin) ui c))
                = (''DuplicateRequest'', ''error''))
       \<and> accounts (snd (handleLockUnlock (lock_unlock_endpoint now actor Admin) ui c)) = accounts c
       \<and> sessions (snd (handleLockUnlock (lock_unlock_endpoint now actor Admin) ui c)) = sessions c"
proof -
  have ne: "modalAction ui \<noteq> []"
    using assms(3) by (auto simp: parse_action_def split: if_splits)
  have 1: "js_trim (reason_text ui) = [] \<Longrightarrow>
            handleLockUnlock (lock_unlock_endpoint now actor Admin) ui c
              = (ui\<lparr>message := (''Please provide a reason for this action'', ''error'')\<rparr>, c)"
    using assms ne by (simp add: handleLockUnlock_def)
  have 2: "request_lock_unlock now actor Admin target act None c = (Inl ValidationError, c)"
          "request_lock_unlock now actor Admin target act (Some []) c = (Inl ValidationError, c)"
    by (simp_all add: request_lock_unlock_def)
  have 3: "\<exists>r. lock_requests (snd (handleLockUnlock (lock_unlock_endpoint now actor Admin) ui c))
                   = lock_requests c @ [r]
                \<and> lr_state r = Pending \<and> target_account_id r = target \<and> lr_action r = act
                \<and> lr_reason r = Some (js_trim (reason_text ui)) \<and> requested_by_role r = Admin"
          "message (fst (handleLockUnlock (lock_unlock_endpoint now actor Admin) ui c))
                = (''Request sent to superadmin for approval'', ''info'')"
    if "js_trim (reason_text ui) \<noteq> []" "accounts c target \<noteq> None"
       "\<not> pending_duplicate target act c"
    using that assms ne
    by (auto simp: handleLockUnlock_def lock_unlock_endpoint_def request_lock_unlock_def
        new_request_def closeModal_def Let_def)
  have 4: "map_option locked
             (accounts
                (snd (review now' sa Superadmin (Suc (length (lock_requests c))) Approve cmt
                        (snd (handleLockUnlock (lock_unlock_endpoint now actor Admin) ui c))))
                target)
           = Some (act = Lock)"
    if "js_trim (reason_text ui) \<noteq> []" "accounts c target \<noteq> None"
       "\<not> pending_duplicate target act c"
       "list_all (\<lambda>r. request_id r \<le> length (lock_requests c)) (lock_requests c)"
  proof -
    from that(2) obtain a where a: "accounts c target = Some a" by blast
    show ?thesis
      unfolding created_request_store [OF assms that(1,2,3)]
      by (rule approve_new_request [OF that(4) a])
  qed
  have 5: "snd (handleLockUnlock (lock_unlock_endpoint now actor Admin) ui c) = c"
          "message (fst (handleLockUnlock (lock_unlock_endpoint now actor Admin) ui c))
                = (''DuplicateRequest'', ''error'')"
    if "js_trim (reason_text ui) \<noteq> []" "accounts c target \<noteq> None"
       "pending_duplicate target act c"
    using that assms ne
    by (auto simp: handleLockUnlock_def lock_unlock_endpoint_def request_lock_unlock_def
        or_default_def Let_def)
  show ?thesis using 1 2 3 4 5 handle_admin_frame [of now actor ui c] by blast
qed

theorem admin_lock_request_reason_mandatory_witness:
  "handleLockUnlock (lock_unlock_endpoint 50 7 Admin) (example_modal\<lparr>reason_text := ''  ''\<rparr>) fresh_core
     = (example_modal\<lparr>reason_text := ''  '',
                      message := (''Please provide a reason for this action'', ''error'')\<rparr>,
        fresh_core)
   \<and> (\<exists>r. lock_requests (snd (handleLockUnlock (lock_unlock_endpoint 50 7 Admin) example_modal fresh_core))
            = [r]
          \<and> lr_state r = Pending \<and> target_account_id r = 2 \<and> lr_action r = Lock
          \<and> lr_reason r = Some ''policy violation'')
   \<and> accounts (snd (handleLockUnlock (lock_unlock_endpoint 50 7 Admin) example_modal fresh_core))
       = accounts fresh_core
   \<and> map_option locked
        (accounts
           (snd (review 60 9 Superadmin 1 Approve None
                   (snd (handleLockUnlock (lock_unlock_endpoint 50 7 Admin) example_modal fresh_core))))
           2)
       = Some True
   \<and> lock_requests (snd (handleLockUnlock (lock_unlock_endpoint 50 7 Admin) example_modal example_core))
       = [example_pending]"
proof -
  have blank: "js_trim (reason_text (example_modal\<lparr>reason_text := ''  ''\<rparr>)) = []"
    by (simp add: js_trim_def is_ws_def)
  have given: "js_trim (reason_text example_modal) = ''policy violation''"
    by (simp add: example_modal_def js_trim_example)
  have acc: "accounts fresh_core 2 \<noteq> None" and nodup: "\<not> pending_duplicate 2 Lock fresh_core"
    and ids: "list_all (\<lambda>r. request_id r \<le> length (lock_requests fresh_core)) (lock_requests fresh_core)"
    and len: "lock_requests fresh_core = []"
    by (simp_all add: fresh_core_def pending_duplicate_def)
  have acc': "accounts example_core 2 \<noteq> None" and dup: "pending_duplicate 2 Lock example_core"
    and reqs: "lock_requests example_core = [example_pending]"
    by (simp_all add: example_core_def fresh_core_def pending_duplicate_def example_pending_def)
  have a: "currentUser_role (example_modal\<lparr>reason_text := ''  ''\<rparr>) = Some ''admin''"
          "selectedUser (example_modal\<lparr>reason_text := ''  ''\<rparr>) = Some 2"
          "parse_action (modalAction (example_modal\<lparr>reason_text := ''  ''\<rparr>)) = Some Lock"
    by (simp_all add: example_modal_def parse_action_def)
  have b: "currentUser_role example_modal = Some ''admin''" "selectedUser example_modal = Some 2"
          "parse_action (modalAction example_modal) = Some Lock"
    by (simp_all add: example_modal_def parse_action_def)
  from admin_lock_request_reason_mandatory
         [where ui = "example_modal\<lparr>reason_text := ''  ''\<rparr>" and target = 2 and act = Lock
            and now = 50 and actor = 7 and c = fresh_core, OF a]
       admin_lock_request_reason_mandatory
         [where ui = example_modal and target = 2 and act = Lock and now = 50 and actor = 7
            and c = fresh_core and now' = 60 and sa = 9 and cmt = None, OF b]
       admin_lock_request_reason_mandatory
         [where ui = example_modal and target = 2 and act = Lock and now = 50 and actor = 7
            and c = example_core, OF b]
       blank given acc nodup ids len acc' dup reqs
  show ?thesis by auto
qed

subsection \<open>Review of lock requests\<close>

lemma execute_action_requests: "lock_requests (execute_action a t c) = lock_requests c"
  by (simp add: execute_action_def split: option.split lock_action.split)

lemma request_state_of_execute:
  "request_state_of (execute_action a t c) rid = request_state_of c rid"
  by (simp add: request_state_of_def execute_action_requests)

lemma find_map_update:
  "find (\<lambda>r. request_id r = rid) xs = Some r \<Longrightarrow> request_id r' = rid \<Longrightarrow>
   find (\<lambda>r. request_id r = rid) (map (\<lambda>x. if request_id x = rid then r' else x) xs) = Some r'"
  by (induction xs) (auto split: if_splits)

lemma review_forbidden:
  "actor_role \<noteq> Superadmin \<Longrightarrow> review now actor actor_role rid act cmt c = (Inl Forbidden, c)"
  by (simp add: review_def)

lemma review_superadmin_state:
  assumes "find (\<lambda>r. request_id r = rid) (lock_requests c) = Some r" and "lr_state r = Pending"
  shows "request_state_of (snd (review now actor Superadmin rid act cmt c)) rid
           = Some (case act of Approve \<Rightarrow> Executed | Reject \<Rightarrow> Rejected)"
proof -
  from assms(1) have rid: "request_id r = rid" by (auto dest: find_Some_member)
  show ?thesis using assms rid
    by (cases act)
       (simp_all add: review_def Let_def request_state_of_execute,
        simp_all add: request_state_of_def find_map_update)
qed

lemma handleReview_snd:
  "snd (handleReview backend ui srv) =
     (case selectedRequest ui of
        None \<Rightarrow> srv
      | Some rid \<Rightarrow>
          if rv_modalAction ui = [] then srv
          else snd (backend rid (rv_modalAction ui)
                     (if js_trim (comment_text ui) = [] then None else Some (js_trim (comment_text ui)))
                     srv))"
  by (simp add: handleReview_def Let_def split: option.split prod.split review_result.split)

lemma review_endpoint_snd:
  "snd (review_endpoint now actor actor_role rid a cmt c)
     = (case parse_review_action a of
          None \<Rightarrow> c
        | Some x \<Rightarrow> snd (review now actor actor_role rid x cmt c))"
  by (simp add: review_endpoint_def split: option.split prod.split sum.split)

lemma handleReview_forbidden:
  "actor_role \<noteq> Superadmin \<Longrightarrow> snd (handleReview (review_endpoint now actor actor_role) ui c) = c"
  by (simp add: handleReview_snd review_endpoint_snd review_forbidden split: option.split)

lemma handleReview_forbidden_message:
  "actor_role \<noteq> Superadmin \<Longrightarrow> selectedRequest ui = Some rid \<Longrightarrow>
   parse_review_action (rv_modalAction ui) = Some a \<Longrightarrow>
   rv_message (fst (handleReview (review_endpoint now actor actor_role) ui c)) = (''Forbidden'', ''error'')"
  by (auto simp: handleReview_def review_endpoint_def review_forbidden Let_def or_default_def parse_review_action_def split: if_splits)

lemma handleReview_superadmin:
  "selectedRequest ui = Some rid \<Longrightarrow> parse_review_action (rv_modalAction ui) = Some a \<Longrightarrow>
   snd (handleReview (review_endpoint now actor Superadmin) ui c)
     = snd (review now actor Superadmin rid a
              (if js_trim (comment_text ui) = [] then None else Some (js_trim (comment_text ui))) c)"
  by (auto simp: handleReview_snd review_endpoint_snd parse_review_action_def split: if_splits)

text \<open>
  C3. For a request in state pending: a review by an actor whose role is not superadmin
  is answered Forbidden and leaves the whole store, the request with it, unchanged, also
  when it is sent from the pending requests page, which checks no role itself; a
  superadmin's approval takes the request to executed and a superadmin's rejection to
  rejected, from the page as well; so if the request has left pending after a review,
  the reviewer was a superadmin; and approved is never a stored state, since approval is
  execution.
\<close>

theorem only_superadmin_review_transitions:
  assumes "find (\<lambda>r. request_id r = rid) (lock_requests c) = Some r" and "lr_state r = Pending"
  shows "(actor_role \<noteq> Superadmin \<longrightarrow> review now actor actor_role rid act cmt c = (Inl Forbidden, c))
       \<and> request_state_of (snd (review now actor Superadmin rid Approve cmt c)) rid = Some Executed
       \<and> request_state_of (snd (review now actor Superadmin rid Reject cmt c)) rid = Some Rejected
       \<and> (request_state_of (snd (review now actor actor_role rid act cmt c)) rid \<noteq> Some Pending
            \<longrightarrow> actor_role = Superadmin)
       \<and> request_state_of (snd (review now actor actor_role rid act cmt c)) rid \<noteq> Some Approved
       \<and> (actor_role \<noteq> Superadmin \<longrightarrow>
            snd (handleReview (review_endpoint now actor actor_role) ui c) = c)
       \<and> (selectedRequest ui = Some rid \<longrightarrow> rv_modalAction ui = ''approve'' \<longrightarrow>
            request_state_of (snd (handleReview (review_endpoint now actor Superadmin) ui c)) rid
              = Some Executed)
       \<and> (selectedRequest ui = Some rid \<longrightarrow> rv_modalAction ui = ''reject'' \<longrightarrow>
            request_state_of (snd (handleReview (review_endpoint now actor Superadmin) ui c)) rid
              = Some Rejected)"
proof -
  have st: "request_state_of c rid = Some Pending"
    using assms by (simp add: request_state_of_def)
  have a: "actor_role \<noteq> Superadmin \<Longrightarrow> review now actor actor_role rid act cmt c = (Inl Forbidden, c)"
    by (rule review_forbidden)
  have b: "request_state_of (snd (review now actor Superadmin rid act' cmt' c)) rid
           = Some (case act' of Approve \<Rightarrow> Executed | Reject \<Rightarrow> Rejected)" for act' cmt'
    by (rule review_superadmin_state [OF assms])
  have c: "request_state_of (snd (review now actor actor_role rid act cmt c)) rid \<noteq> Some Approved"
  proof (cases "actor_role = Superadmin")
    case True
    then show ?thesis using b [of act cmt] by (cases act) simp_all
  next
    case False
    then show ?thesis using a st by simp
  qed
  have d: "actor_role \<noteq> Superadmin \<Longrightarrow>
           snd (handleReview (review_endpoint now actor actor_role) ui c) = c"
    by (rule handleReview_forbidden)
  have e: "request_state_of (snd (handleReview (review_endpoint now actor Superadmin) ui c)) rid
              = Some Executed"
    if "selectedRequest ui = Some rid" "rv_modalAction ui = ''approve''"
    using that b [of Approve]
    by (simp add: handleReview_superadmin [where a = Approve] parse_review_action_def)
  have f: "request_state_of (snd (handleReview (review_endpoint now actor Superadmin) ui c)) rid
              = Some Rejected"
    if "selectedRequest ui = Some rid" "rv_modalAction ui = ''reject''"
    using that b [of Reject]
    by (simp add: handleReview_superadmin [where a = Reject] parse_review_action_def)
  have first: "(actor_role \<noteq> Superadmin \<longrightarrow> review now actor actor_role rid act cmt c = (Inl Forbidden, c))
       \<and> request_state_of (snd (review now actor Superadmin rid Approve cmt c)) rid = Some Executed
       \<and> request_state_of (snd (review now actor Superadmin rid Reject cmt c)) rid = Some Rejected
       \<and> (request_state_of (snd (review now actor actor_role rid act cmt c)) rid \<noteq> Some Pending
            \<longrightarrow> actor_role = Superadmin)
       \<and> request_state_of (snd (review now actor actor_role rid act cmt c)) rid \<noteq> Some Approved"
    using a b [of Approve cmt] b [of Reject cmt] c st by (cases "actor_role = Superadmin") auto
  show ?thesis using first d e f by blast
qed

theorem only_superadmin_review_transitions_witness:
  "review 60 5 Admin 1 Approve None example_core = (Inl Forbidden, example_core)
   \<and> snd (handleReview (review_endpoint 60 5 Admin) example_review_modal example_core) = example_core
   \<and> request_state_of (snd (review 60 9 Superadmin 1 Approve None example_core)) 1 = Some Executed
   \<and> request_state_of (snd (review 60 9 Superadmin 1 Reject None example_core)) 1 = Some Rejected
   \<and> request_state_of
        (snd (handleReview (review_endpoint 60 9 Superadmin) example_review_modal example_core)) 1
       = Some Executed
   \<and> request_state_of
        (snd (handleReview (review_endpoint 60 9 Superadmin)
                (example_review_modal\<lparr>rv_modalAction := ''reject''\<rparr>) example_core)) 1
       = Some Rejected"
proof -
  have 1: "find (\<lambda>r. request_id r = 1) (lock_requests example_core) = Some example_pending"
    by (simp add: example_core_def example_pending_def)
  have 2: "lr_state example_pending = Pending" by (simp add: example_pending_def)
  have 3: "selectedRequest example_review_modal = Some 1"
          "rv_modalAction example_review_modal = ''approve''"
          "selectedRequest (example_review_modal\<lparr>rv_modalAction := ''reject''\<rparr>) = Some 1"
          "rv_modalAction (example_review_modal\<lparr>rv_modalAction := ''reject''\<rparr>) = ''reject''"
    by (simp_all add: example_review_modal_def)
  have 4: "Admin \<noteq> Superadmin" by simp
  note adm = only_superadmin_review_transitions
         [where rid = 1 and c = example_core and r = example_pending and actor_role = Admin
            and now = 60 and actor = 5 and act = Approve and cmt = None
            and ui = example_review_modal, OF 1 2]
  note sup = only_superadmin_review_transitions
         [where rid = 1 and c = example_core and r = example_pending and actor_role = Superadmin
            and now = 60 and actor = 9 and act = Approve and cmt = None
            and ui = example_review_modal, OF 1 2]
  note rej = only_superadmin_review_transitions
         [where rid = 1 and c = example_core and r = example_pending and actor_role = Superadmin
            and now = 60 and actor = 9 and act = Reject and cmt = None
            and ui = "example_review_modal\<lparr>rv_modalAction := ''reject''\<rparr>", OF 1 2]
  from adm sup rej 3 4 show ?thesis by blast
qed

subsection \<open>Device heartbeat\<close>

text \<open>
  C7. A heartbeat for a registered device that carries a token other than the device's
  secret token is answered Unauthorized and leaves the registry, and with it the
  device's last_heartbeat_at and every other field, unchanged.
\<close>

theorem heartbeat_wrong_token_unauthorized:
  assumes "reg uuid = Some d" and "tok \<noteq> secret_token d"
  shows "heartbeat now uuid tok telemetry reg = (Inl Unauthorized, reg)"
  using assms by (simp add: heartbeat_def)

theorem heartbeat_wrong_token_unauthorized_witness:
  "heartbeat 200 ''dev-1'' ''guess'' () example_registry = (Inl Unauthorized, example_registry)
   \<and> map_option last_heartbeat_at (example_registry ''dev-1'') = Some (Some 100)"
proof -
  have 1: "example_registry ''dev-1'' = Some example_device"
    by (simp add: example_registry_def)
  have 2: "''guess'' \<noteq> secret_token example_device"
    by (simp add: example_device_def)
  from heartbeat_wrong_token_unauthorized
         [where reg = example_registry and uuid = "''dev-1''" and d = example_device
            and tok = "''guess''" and now = 200 and telemetry = "()", OF 1 2] 1
  show ?thesis by (simp add: example_device_def)
qed

subsection \<open>Geolocation source\<close>

lemma typeof_number: "typeof v = ''number'' \<longleftrightarrow> (\<exists>r. v = JNum r)"
  by (cases v) auto

lemma loginUser_headers_latitude:
  "map_of (loginUser_headers to_text bl) ''X-User-Latitude'' \<noteq> None \<longleftrightarrow>
     (\<exists>l. bl = Some l \<and> permission_status l = ''granted''
          \<and> typeof (latitude l) = ''number'' \<and> typeof (longitude l) = ''number'')"
  by (auto simp: loginUser_headers_def split: option.splits)

lemma loginUser_headers_longitude:
  "map_of (loginUser_headers to_text bl) ''X-User-Longitude'' \<noteq> None \<longleftrightarrow>
   map_of (loginUser_headers to_text bl) ''X-User-Latitude'' \<noteq> None"
  by (auto simp: loginUser_headers_def split: option.splits)

lemma resolve_browser:
  "geo_source (resolveGeoContext bl lookup) = SrcBrowser \<longleftrightarrow>
     (\<exists>l. bl = Some l \<and> permission_status l = ''granted''
          \<and> typeof (latitude l) = ''number'' \<and> typeof (longitude l) = ''number'')"
  by (auto simp: resolveGeoContext_def Let_def typeof_number
      split: option.splits jsval.splits bool.splits)

lemma resolve_fallback:
  "geo_source (resolveGeoContext bl lookup) \<noteq> SrcBrowser \<Longrightarrow>
   resolveGeoContext bl lookup =
     (case lookup of
        Some l \<Rightarrow>
          \<lparr>country = Some (ip_country l), city = Some (ip_city l),
           geo_latitude = Some (ip_latitude l), geo_longitude = Some (ip_longitude l),
           geo_source = SrcIpLookup\<rparr>
      | None \<Rightarrow>
          \<lparr>country = None, city = None, geo_latitude = None, geo_longitude = None,
           geo_source = SrcUnknown\<rparr>)"
  by (auto simp: resolveGeoContext_def Let_def split: option.splits jsval.splits bool.splits)

lemma capture_granted:
  "permission_status (captureBrowserLocation nav) = ''granted'' \<longleftrightarrow>
     has_geolocation nav \<and> permission_state nav \<noteq> Some ''denied''
       \<and> (\<exists>la lo ac. current_position nav = Position la lo ac)"
  by (auto simp: captureBrowserLocation_def no_location_def split: position_result.splits)

lemma capture_numeric:
  "permission_status (captureBrowserLocation nav) = ''granted'' \<Longrightarrow>
   typeof (latitude (captureBrowserLocation nav)) = ''number''
   \<and> typeof (longitude (captureBrowserLocation nav)) = ''number''"
  by (auto simp: captureBrowserLocation_def no_location_def
      split: position_result.splits if_splits)



lemma score_unknown_geo: "score (UnknownGeo # triggered) = score triggered"
  by (simp add: score_def)

lemma resolve_ip:
  "geo_source (resolveGeoContext bl lookup) = SrcIpLookup \<longleftrightarrow>
     geo_source (resolveGeoContext bl lookup) \<noteq> SrcBrowser \<and> lookup \<noteq> None"
  by (auto simp: resolveGeoContext_def Let_def split: option.splits jsval.splits bool.splits)

lemma resolve_unknown:
  "geo_source (resolveGeoContext bl lookup) = SrcUnknown \<longleftrightarrow>
     geo_source (resolveGeoContext bl lookup) \<noteq> SrcBrowser \<and> lookup = None"
  by (auto simp: resolveGeoContext_def Let_def split: option.splits jsval.splits bool.splits)

lemma resolve_unknown_null:
  "geo_source (resolveGeoContext bl lookup) = SrcUnknown \<Longrightarrow>
   resolveGeoContext bl lookup =
     \<lparr>country = None, city = None, geo_latitude = None, geo_longitude = None,
      geo_source = SrcUnknown\<rparr>"
  by (auto simp: resolveGeoContext_def Let_def split: option.splits jsval.splits bool.splits)

lemma capture_headers:
  "map_of (loginUser_headers to_text (Some (captureBrowserLocation nav))) ''X-User-Latitude''
               \<noteq> None \<longleftrightarrow>
             permission_status (captureBrowserLocation nav) = ''granted''"
  unfolding loginUser_headers_latitude using capture_numeric [of nav] by auto

lemma loginUser_headers_granted:
  "permission_status l = ''granted'' \<Longrightarrow> latitude l = JNum la \<Longrightarrow> longitude l = JNum lo \<Longrightarrow>
   loginUser_headers to_text (Some l) =
     [(''Content-Type'', ''application/json''), (''X-User-Latitude'', to_text (JNum la)),
      (''X-User-Longitude'', to_text (JNum lo))]"
  by (simp add: loginUser_headers_def)

lemma loginUser_headers_plain:
  "\<not> (\<exists>l. bl = Some l \<and> permission_status l = ''granted''
          \<and> typeof (latitude l) = ''number'' \<and> typeof (longitude l) = ''number'') \<Longrightarrow>
   loginUser_headers to_text bl = [(''Content-Type'', ''application/json'')]"
  by (auto simp: loginUser_headers_def split: option.splits)

lemma resolve_browser_record:
  "permission_status l = ''granted'' \<Longrightarrow> latitude l = JNum la \<Longrightarrow> longitude l = JNum lo \<Longrightarrow>
   resolveGeoContext (Some l) lookup =
     \<lparr>country = map_option ip_country lookup, city = map_option ip_city lookup,
      geo_latitude = Some la, geo_longitude = Some lo, geo_source = SrcBrowser\<rparr>"
  by (simp add: resolveGeoContext_def)

lemma resolve_ip_record:
  "geo_source (resolveGeoContext bl lookup) \<noteq> SrcBrowser \<Longrightarrow> lookup = Some ipl \<Longrightarrow>
   resolveGeoContext bl lookup =
     \<lparr>country = Some (ip_country ipl), city = Some (ip_city ipl),
      geo_latitude = Some (ip_latitude ipl), geo_longitude = Some (ip_longitude ipl),
      geo_source = SrcIpLookup\<rparr>"
  by (drule resolve_fallback) simp

lemma capture_position:
  "has_geolocation nav \<Longrightarrow> permission_state nav \<noteq> Some ''denied'' \<Longrightarrow>
   current_position nav = Position la lo ac \<Longrightarrow>
   captureBrowserLocation nav =
     \<lparr>permission_status = ''granted'', latitude = JNum la, longitude = JNum lo,
      accuracy_m = JNum ac\<rparr>"
  by (simp add: captureBrowserLocation_def)

lemma capture_no_position:
  "permission_status (captureBrowserLocation nav) \<noteq> ''granted'' \<Longrightarrow>
   latitude (captureBrowserLocation nav) = JNull \<and> longitude (captureBrowserLocation nav) = JNull
   \<and> accuracy_m (captureBrowserLocation nav) = JNull"
  by (auto simp: captureBrowserLocation_def no_location_def split: position_result.splits if_splits)

lemma resolve_browser_headers:
  "geo_source (resolveGeoContext bl lookup) = SrcBrowser \<longleftrightarrow>
   map_of (loginUser_headers to_text bl) ''X-User-Latitude'' \<noteq> None"
  unfolding loginUser_headers_latitude resolve_browser ..

lemma resolve_not_granted:
  "permission_status b \<noteq> ''granted'' \<Longrightarrow>
   resolveGeoContext (Some b) lookup = resolveGeoContext None lookup"
  by (simp add: resolveGeoContext_def)

lemma capture_pipeline:
  assumes "has_geolocation nav \<and> permission_state nav \<noteq> Some ''denied''
        \<and> current_position nav = Position pa po pc"
  shows "captureBrowserLocation nav =
        \<lparr>permission_status = ''granted'', latitude = JNum pa, longitude = JNum po,
         accuracy_m = JNum pc\<rparr>
      \<and> loginUser_headers to_text (Some (captureBrowserLocation nav)) =
        [(''Content-Type'', ''application/json''), (''X-User-Latitude'', to_text (JNum pa)),
         (''X-User-Longitude'', to_text (JNum po))]
      \<and> resolveGeoContext (Some (captureBrowserLocation nav)) lookup =
        \<lparr>country = map_option ip_country lookup, city = map_option ip_city lookup,
         geo_latitude = Some pa, geo_longitude = Some po, geo_source = SrcBrowser\<rparr>"
proof -
  from assms have c: "captureBrowserLocation nav =
        \<lparr>permission_status = ''granted'', latitude = JNum pa, longitude = JNum po,
         accuracy_m = JNum pc\<rparr>"
    by (simp add: capture_position)
  show ?thesis
    unfolding c by (simp add: loginUser_headers_granted resolve_browser_record)
qed

lemma capture_refused:
  assumes "permission_status (captureBrowserLocation nav) \<noteq> ''granted''"
  shows "latitude (captureBrowserLocation nav) = JNull \<and> longitude (captureBrowserLocation nav) = JNull
      \<and> loginUser_headers to_text (Some (captureBrowserLocation nav)) =
          [(''Content-Type'', ''application/json'')]
      \<and> resolveGeoContext (Some (captureBrowserLocation nav)) lookup = resolveGeoContext None lookup"
  using assms capture_no_position [OF assms]
  by (simp add: resolve_not_granted loginUser_headers_plain)

text \<open>
  C5. The browser's coordinates are the ones used, if and only if there is a browser
  location whose permission_status is "granted" and whose latitude and longitude are
  both numbers: exactly then the page sends the two coordinate headers, their values
  being the text of that latitude and that longitude, and exactly then the resolver's
  record has the browser as its source and that latitude and longitude as its
  coordinates; in every other case the page sends no coordinate header. Otherwise the
  record is the IP lookup's (its country, city and coordinates) when the lookup
  succeeded, and when it failed the record is unknown with no coordinates, country or
  city. The unknown-geo factor weighs 0: adding it to any triggered factors leaves the
  score as it was, and alone it classifies as normal. \<^verbatim>\<open>captureBrowserLocation\<close> returns
  granted exactly when geolocation exists, the permission is not denied and a position
  was obtained; it then carries that position's latitude, longitude and accuracy, which
  are the values sent and resolved; when it is not granted its coordinates are null,
  no coordinate header is sent and the resolver falls back as if no browser location
  had been given.
\<close>

theorem browser_coordinates_preferred:
  "(map_of (loginUser_headers to_text bl) ''X-User-Latitude'' \<noteq> None \<longleftrightarrow>
      (\<exists>l. bl = Some l \<and> permission_status l = ''granted''
           \<and> typeof (latitude l) = ''number'' \<and> typeof (longitude l) = ''number''))
   \<and> (map_of (loginUser_headers to_text bl) ''X-User-Longitude'' \<noteq> None \<longleftrightarrow>
      map_of (loginUser_headers to_text bl) ''X-User-Latitude'' \<noteq> None)
   \<and> (geo_source (resolveGeoContext bl lookup) = SrcBrowser \<longleftrightarrow>
      (\<exists>l. bl = Some l \<and> permission_status l = ''granted''
           \<and> typeof (latitude l) = ''number'' \<and> typeof (longitude l) = ''number''))
   \<and> (geo_source (resolveGeoContext bl lookup) = SrcIpLookup \<longleftrightarrow>
      geo_source (resolveGeoContext bl lookup) \<noteq> SrcBrowser \<and> lookup \<noteq> None)
   \<and> (geo_source (resolveGeoContext bl lookup) = SrcUnknown \<longleftrightarrow>
      geo_source (resolveGeoContext bl lookup) \<noteq> SrcBrowser \<and> lookup = None)
   \<and> (geo_source (resolveGeoContext bl lookup) = SrcUnknown \<longrightarrow>
      resolveGeoContext bl lookup =
        \<lparr>country = None, city = None, geo_latitude = None, geo_longitude = None,
         geo_source = SrcUnknown\<rparr>)
   \<and> (score (UnknownGeo # triggered) = score triggered)
   \<and> (classification (score [UnknownGeo]) = ''normal'')
   \<and> (permission_status (captureBrowserLocation nav) = ''granted'' \<longleftrightarrow>
      has_geolocation nav \<and> permission_state nav \<noteq> Some ''denied''
        \<and> (\<exists>la lo ac. current_position nav = Position la lo ac))
   \<and> (map_of (loginUser_headers to_text (Some (captureBrowserLocation nav))) ''X-User-Latitude''
        \<noteq> None \<longleftrightarrow>
      permission_status (captureBrowserLocation nav) = ''granted'')
   \<and> (bl = Some l \<and> permission_status l = ''granted'' \<and> latitude l = JNum la \<and> longitude l = JNum lo
      \<longrightarrow>
      loginUser_headers to_text bl =
        [(''Content-Type'', ''application/json''), (''X-User-Latitude'', to_text (JNum la)),
         (''X-User-Longitude'', to_text (JNum lo))]
      \<and> resolveGeoContext bl lookup =
        \<lparr>country = map_option ip_country lookup, city = map_option ip_city lookup,
         geo_latitude = Some la, geo_longitude = Some lo, geo_source = SrcBrowser\<rparr>)
   \<and> (\<not> (\<exists>l. bl = Some l \<and> permission_status l = ''granted''
           \<and> typeof (latitude l) = ''number'' \<and> typeof (longitude l) = ''number'') \<longrightarrow>
      loginUser_headers to_text bl = [(''Content-Type'', ''application/json'')])
   \<and> (geo_source (resolveGeoContext bl lookup) \<noteq> SrcBrowser \<and> lookup = Some ipl \<longrightarrow>
      resolveGeoContext bl lookup =
        \<lparr>country = Some (ip_country ipl), city = Some (ip_city ipl),
         geo_latitude = Some (ip_latitude ipl), geo_longitude = Some (ip_longitude ipl),
         geo_source = SrcIpLookup\<rparr>)
   \<and> (geo_source (resolveGeoContext bl lookup) = SrcBrowser \<longleftrightarrow>
      map_of (loginUser_headers to_text bl) ''X-User-Latitude'' \<noteq> None)
   \<and> (has_geolocation nav \<and> permission_state nav \<noteq> Some ''denied''
        \<and> current_position nav = Position pa po pc \<longrightarrow>
      captureBrowserLocation nav =
        \<lparr>permission_status = ''granted'', latitude = JNum pa, longitude = JNum po,
         accuracy_m = JNum pc\<rparr>
      \<and> loginUser_headers to_text (Some (captureBrowserLocation nav)) =
        [(''Content-Type'', ''application/json''), (''X-User-Latitude'', to_text (JNum pa)),
         (''X-User-Longitude'', to_text (JNum po))]
      \<and> resolveGeoContext (Some (captureBrowserLocation nav)) lookup =
        \<lparr>country = map_option ip_country lookup, city = map_option ip_city lookup,
         geo_latitude = Some pa, geo_longitude = Some po, geo_source = SrcBrowser\<rparr>)
   \<and> (permission_status (captureBrowserLocation nav) \<noteq> ''granted'' \<longrightarrow>
      latitude (captureBrowserLocation nav) = JNull \<and> longitude (captureBrowserLocation nav) = JNull
      \<and> loginUser_headers to_text (Some (captureBrowserLocation nav)) = [(''Content-Type'', ''application/json'')]
      \<and> resolveGeoContext (Some (captureBrowserLocation nav)) lookup = resolveGeoContext None lookup)"
proof (intro conjI)
  show "map_of (loginUser_headers to_text bl) ''X-User-Latitude'' \<noteq> None \<longleftrightarrow>
      (\<exists>l. bl = Some l \<and> permission_status l = ''granted''
           \<and> typeof (latitude l) = ''number'' \<and> typeof (longitude l) = ''number'')"
    by (rule loginUser_headers_latitude)
  show "map_of (loginUser_headers to_text bl) ''X-User-Longitude'' \<noteq> None \<longleftrightarrow>
      map_of (loginUser_headers to_text bl) ''X-User-Latitude'' \<noteq> None"
    by (rule loginUser_headers_longitude)
  show "geo_source (resolveGeoContext bl lookup) = SrcBrowser \<longleftrightarrow>
      (\<exists>l. bl = Some l \<and> permission_status l = ''granted''
           \<and> typeof (latitude l) = ''number'' \<and> typeof (longitude l) = ''number'')"
    by (rule resolve_browser)
  show "geo_source (resolveGeoContext bl lookup) = SrcIpLookup \<longleftrightarrow>
      geo_source (resolveGeoContext bl lookup) \<noteq> SrcBrowser \<and> lookup \<noteq> None"
    by (rule resolve_ip)
  show "geo_source (resolveGeoContext bl lookup) = SrcUnknown \<longleftrightarrow>
      geo_source (resolveGeoContext bl lookup) \<noteq> SrcBrowser \<and> lookup = None"
    by (rule resolve_unknown)
  show "geo_source (resolveGeoContext bl lookup) = SrcUnknown \<longrightarrow>
      resolveGeoContext bl lookup =
        \<lparr>country = None, city = None, geo_latitude = None, geo_longitude = None,
         geo_source = SrcUnknown\<rparr>"
    by (rule impI) (rule resolve_unknown_null)
  show "score (UnknownGeo # triggered) = score triggered"
    by (rule score_unknown_geo)
  show "classification (score [UnknownGeo]) = ''normal''"
    by (simp add: score_def classification_def)
  show "permission_status (captureBrowserLocation nav) = ''granted'' \<longleftrightarrow>
      has_geolocation nav \<and> permission_state nav \<noteq> Some ''denied''
        \<and> (\<exists>la lo ac. current_position nav = Position la lo ac)"
    by (rule capture_granted)
  show "map_of (loginUser_headers to_text (Some (captureBrowserLocation nav))) ''X-User-Latitude''
        \<noteq> None \<longleftrightarrow>
      permission_status (captureBrowserLocation nav) = ''granted''"
    by (rule capture_headers)
  show "bl = Some l \<and> permission_status l = ''granted'' \<and> latitude l = JNum la \<and> longitude l = JNum lo
      \<longrightarrow>
      loginUser_headers to_text bl =
        [(''Content-Type'', ''application/json''), (''X-User-Latitude'', to_text (JNum la)),
         (''X-User-Longitude'', to_text (JNum lo))]
      \<and> resolveGeoContext bl lookup =
        \<lparr>country = map_option ip_country lookup, city = map_option ip_city lookup,
         geo_latitude = Some la, geo_longitude = Some lo, geo_source = SrcBrowser\<rparr>"
    by (auto simp: loginUser_headers_granted resolve_browser_record)
  show "\<not> (\<exists>l. bl = Some l \<and> permission_status l = ''granted''
           \<and> typeof (latitude l) = ''number'' \<and> typeof (longitude l) = ''number'') \<longrightarrow>
      loginUser_headers to_text bl = [(''Content-Type'', ''application/json'')]"
    by (rule impI) (rule loginUser_headers_plain)
  show "geo_source (resolveGeoContext bl lookup) \<noteq> SrcBrowser \<and> lookup = Some ipl \<longrightarrow>
      resolveGeoContext bl lookup =
        \<lparr>country = Some (ip_country ipl), city = Some (ip_city ipl),
         geo_latitude = Some (ip_latitude ipl), geo_longitude = Some (ip_longitude ipl),
         geo_source = SrcIpLookup\<rparr>"
    by (auto intro: resolve_ip_record)
  show "geo_source (resolveGeoContext bl lookup) = SrcBrowser \<longleftrightarrow>
      map_of (loginUser_headers to_text bl) ''X-User-Latitude'' \<noteq> None"
    by (rule resolve_browser_headers)
  show "has_geolocation nav \<and> permission_state nav \<noteq> Some ''denied''
        \<and> current_position nav = Position pa po pc \<longrightarrow>
      captureBrowserLocation nav =
        \<lparr>permission_status = ''granted'', latitude = JNum pa, longitude = JNum po,
         accuracy_m = JNum pc\<rparr>
      \<and> loginUser_headers to_text (Some (captureBrowserLocation nav)) =
        [(''Content-Type'', ''application/json''), (''X-User-Latitude'', to_text (JNum pa)),
         (''X-User-Longitude'', to_text (JNum po))]
      \<and> resolveGeoContext (Some (captureBrowserLocation nav)) lookup =
        \<lparr>country = map_option ip_country lookup, city = map_option ip_city lookup,
         geo_latitude = Some pa, geo_longitude = Some po, geo_source = SrcBrowser\<rparr>"
    by (rule impI) (rule capture_pipeline)
  show "permission_status (captureBrowserLocation nav) \<noteq> ''granted'' \<longrightarrow>
      latitude (captureBrowserLocation nav) = JNull \<and> longitude (captureBrowserLocation nav) = JNull
      \<and> loginUser_headers to_text (Some (captureBrowserLocation nav)) = [(''Content-Type'', ''application/json'')]
      \<and> resolveGeoContext (Some (captureBrowserLocation nav)) lookup = resolveGeoContext None lookup"
    by (rule impI) (rule capture_refused)
qed

theorem browser_coordinates_preferred_witness:
  "loginUser_headers example_to_text (Some example_location) =
     [(''Content-Type'', ''application/json''), (''X-User-Latitude'', ''48.85''), (''X-User-Longitude'', ''2.35'')]
   \<and> resolveGeoContext (Some example_location) None =
     \<lparr>country = None, city = None, geo_latitude = Some 48.85, geo_longitude = Some 2.35,
      geo_source = SrcBrowser\<rparr>
   \<and> loginUser_headers example_to_text (Some (no_location ''denied'')) = [(''Content-Type'', ''application/json'')]
   \<and> resolveGeoContext (Some (no_location ''denied'')) (Some example_ip_location) =
     \<lparr>country = Some ''FR'', city = Some ''Paris'', geo_latitude = Some 48.86,
      geo_longitude = Some 2.34, geo_source = SrcIpLookup\<rparr>
   \<and> resolveGeoContext (Some (no_location ''denied'')) None =
     \<lparr>country = None, city = None, geo_latitude = None, geo_longitude = None,
      geo_source = SrcUnknown\<rparr>
   \<and> captureBrowserLocation example_navigator = example_location
   \<and> loginUser_headers example_to_text (Some (captureBrowserLocation example_navigator)) =
     [(''Content-Type'', ''application/json''), (''X-User-Latitude'', ''48.85''), (''X-User-Longitude'', ''2.35'')]
   \<and> latitude (captureBrowserLocation (example_navigator\<lparr>has_geolocation := False\<rparr>)) = JNull"
proof -
  note granted = browser_coordinates_preferred
    [where bl = "Some example_location" and l = example_location and la = "48.85" and lo = "2.35"
       and lookup = None and to_text = example_to_text and nav = example_navigator
       and pa = "48.85" and po = "2.35" and pc = 20]
  note denied_ip = browser_coordinates_preferred
    [where bl = "Some (no_location ''denied'')" and lookup = "Some example_ip_location"
       and ipl = example_ip_location and to_text = example_to_text
       and nav = "example_navigator\<lparr>has_geolocation := False\<rparr>"]
  note denied_none = browser_coordinates_preferred
    [where bl = "Some (no_location ''denied'')" and lookup = None and to_text = example_to_text]
  have g: "Some example_location = Some example_location
           \<and> permission_status example_location = ''granted''
           \<and> latitude example_location = JNum 48.85 \<and> longitude example_location = JNum 2.35"
    by (simp add: example_location_def)
  have nd: "\<not> (\<exists>l. Some (no_location ''denied'') = Some l \<and> permission_status l = ''granted''
              \<and> typeof (latitude l) = ''number'' \<and> typeof (longitude l) = ''number'')"
    by (simp add: no_location_def)
  have nb: "geo_source (resolveGeoContext (Some (no_location ''denied'')) lookup) \<noteq> SrcBrowser"
    for lookup
    using nd by (simp only: resolve_browser not_False_eq_True)
  have nav: "has_geolocation example_navigator \<and> permission_state example_navigator \<noteq> Some ''denied''
             \<and> current_position example_navigator = Position 48.85 2.35 20"
    by (simp add: example_navigator_def)
  have off: "permission_status (captureBrowserLocation (example_navigator\<lparr>has_geolocation := False\<rparr>))
               \<noteq> ''granted''"
    by (simp add: captureBrowserLocation_def no_location_def)
  have unk: "geo_source (resolveGeoContext (Some (no_location ''denied'')) None) = SrcUnknown"
    by (rule iffD2 [OF denied_none [THEN conjunct2, THEN conjunct2, THEN conjunct2, THEN conjunct2, THEN conjunct1] conjI [OF nb refl]])
  note a = mp [OF granted [THEN conjunct2, THEN conjunct2, THEN conjunct2, THEN conjunct2, THEN conjunct2, THEN conjunct2, THEN conjunct2, THEN conjunct2, THEN conjunct2, THEN conjunct2, THEN conjunct1] g]
  note b = mp [OF denied_none [THEN conjunct2, THEN conjunct2, THEN conjunct2, THEN conjunct2, THEN conjunct2, THEN conjunct2, THEN conjunct2, THEN conjunct2, THEN conjunct2, THEN conjunct2, THEN conjunct2, THEN conjunct1] nd]
  note c = mp [OF denied_ip [THEN conjunct2, THEN conjunct2, THEN conjunct2, THEN conjunct2, THEN conjunct2, THEN conjunct2, THEN conjunct2, THEN conjunct2, THEN conjunct2, THEN conjunct2, THEN conjunct2, THEN conjunct2, THEN conjunct1] conjI [OF nb refl]]
  note d = mp [OF denied_none [THEN conjunct2, THEN conjunct2, THEN conjunct2, THEN conjunct2, THEN conjunct2, THEN conjunct1] unk]
  note e = mp [OF granted [THEN conjunct2, THEN conjunct2, THEN conjunct2, THEN conjunct2, THEN conjunct2, THEN conjunct2, THEN conjunct2, THEN conjunct2, THEN conjunct2, THEN conjunct2, THEN conjunct2, THEN conjunct2, THEN conjunct2, THEN conjunct2, THEN conjunct1] nav]
  note f = mp [OF denied_ip [THEN conjunct2, THEN conjunct2, THEN conjunct2, THEN conjunct2, THEN conjunct2, THEN conjunct2, THEN conjunct2, THEN conjunct2, THEN conjunct2, THEN conjunct2, THEN conjunct2, THEN conjunct2, THEN conjunct2, THEN conjunct2, THEN conjunct2] off]
  have t: "example_to_text (JNum 48.85) = ''48.85''" "example_to_text (JNum 2.35) = ''2.35''"
    by (simp_all add: example_to_text_def)
  have ip: "ip_country example_ip_location = ''FR''" "ip_city example_ip_location = ''Paris''"
           "ip_latitude example_ip_location = 48.86" "ip_longitude example_ip_location = 2.34"
    by (simp_all add: example_ip_location_def)
  have 1: "loginUser_headers example_to_text (Some example_location) =
     [(''Content-Type'', ''application/json''), (''X-User-Latitude'', ''48.85''), (''X-User-Longitude'', ''2.35'')]"
    using a [THEN conjunct1] by (simp only: t)
  have 2: "resolveGeoContext (Some example_location) None =
     \<lparr>country = None, city = None, geo_latitude = Some 48.85, geo_longitude = Some 2.35,
      geo_source = SrcBrowser\<rparr>"
    using a [THEN conjunct2] by simp
  have 4: "resolveGeoContext (Some (no_location ''denied'')) (Some example_ip_location) =
     \<lparr>country = Some ''FR'', city = Some ''Paris'', geo_latitude = Some 48.86,
      geo_longitude = Some 2.34, geo_source = SrcIpLookup\<rparr>"
    using c by (simp only: ip)
  have 6: "captureBrowserLocation example_navigator = example_location"
    using e [THEN conjunct1] by (simp add: example_location_def)
  have 7: "loginUser_headers example_to_text (Some (captureBrowserLocation example_navigator)) =
     [(''Content-Type'', ''application/json''), (''X-User-Latitude'', ''48.85''), (''X-User-Longitude'', ''2.35'')]"
    using e [THEN conjunct2, THEN conjunct1] by (simp only: t)
  show ?thesis
    by (intro conjI) (rule 1 2 b 4 d 6 7 f [THEN conjunct1])+
qed


end
